theory Spec2Isabelle
  imports Complex_Main "HOL-Library.Sublist"
begin

section \<open>The mock plant API of \<open>backend/app.py\<close>\<close>

text \<open>
  The program is a Flask application with one process-wide object \<open>plant_data\<close>
  (a \<open>PlantDataStore\<close>) built when the module is loaded, and eleven routes. Every
  handler is modelled as a function of the process state (the store and the dict objects
  it refers to), of the request, and of a \<open>world\<close>: what the handler obtains from
  outside the program, namely the raw output of the pseudo-random generator, the readings
  of the system clock, the file \<open>frontend/index.html\<close> and the behaviour of the
  libraries the handlers call. A handler returns the HTTP response or the exception it
  raises, together with the process state and the world it leaves behind.
\<close>

subsection \<open>Python values\<close>

record datetime =
  year :: int
  month :: nat
  day :: nat
  hour :: nat
  minute :: nat
  second :: nat
  microsecond :: nat

text \<open>
  The values handed to \<open>jsonify\<close> and the values a parsed JSON document consists of.
  A \<open>float\<close> is the real number that the IEEE double denotes; a \<open>dict\<close> is the
  list of its items in insertion order.
\<close>

datatype pyval =
    PNone
  | PBool bool
  | PInt int
  | PFloat real
  | PStr string
  | PDatetime datetime
  | PList "pyval list"
  | PDict "(string \<times> pyval) list"

datatype py_error =
    AttributeError
  | ZeroDivisionError
  | BadRequest
  | UnsupportedMediaType
  | NotADirectoryError
  | IsADirectoryError
  | PermissionError
  | UnicodeDecodeError
  | OSError

text \<open>\<open>d.get(key, default)\<close>: only a dict has the method.\<close>

fun py_get :: "pyval \<Rightarrow> string \<Rightarrow> pyval \<Rightarrow> py_error + pyval" where
  "py_get (PDict items) key dflt =
     Inr (case map_of items key of None \<Rightarrow> dflt | Some v \<Rightarrow> v)"
| "py_get _ key dflt = Inl AttributeError"

text \<open>\<open>key in d\<close> and \<open>d[key]\<close> on the top level of a response.\<close>

fun has_key :: "pyval \<Rightarrow> string \<Rightarrow> bool" where
  "has_key (PDict items) key = (map_of items key \<noteq> None)"
| "has_key _ key = False"

fun dict_item :: "pyval \<Rightarrow> string \<Rightarrow> pyval option" where
  "dict_item (PDict items) key = map_of items key"
| "dict_item _ key = None"

subsection \<open>Text formatting\<close>

definition digit_char :: "nat \<Rightarrow> char" where
  "digit_char d = ''0123456789'' ! d"

fun str_nat :: "nat \<Rightarrow> string" where
  "str_nat n = (if n < 10 then [digit_char n] else str_nat (n div 10) @ [digit_char (n mod 10)])"

declare str_nat.simps [simp del]

definition str_int :: "int \<Rightarrow> string" where
  "str_int i = (if i < 0 then CHR ''-'' # str_nat (nat (- i)) else str_nat (nat i))"

text \<open>The conversions \<open>%02d\<close>, \<open>%04d\<close> and \<open>%06d\<close> of a number that is not negative.\<close>

definition zero_pad :: "nat \<Rightarrow> nat \<Rightarrow> string" where
  "zero_pad width n = replicate (width - length (str_nat n)) CHR ''0'' @ str_nat n"

text \<open>The datetimes that Python can hold.\<close>

definition valid_datetime :: "datetime \<Rightarrow> bool" where
  "valid_datetime t \<longleftrightarrow>
     1 \<le> year t \<and> year t \<le> 9999 \<and> 1 \<le> month t \<and> month t \<le> 12 \<and> 1 \<le> day t \<and> day t \<le> 31
     \<and> hour t < 24 \<and> minute t < 60 \<and> second t < 60 \<and> microsecond t < 1000000"

text \<open>
  \<open>datetime.isoformat()\<close> and the two \<open>strftime\<close> formats the handlers use.
  \<open>isoformat\<close> pads the year to four digits; the \<open>%Y\<close> of \<open>strftime\<close> is the year
  as the C library prints it, without padding (\<open>999\<close> for the year 999).
\<close>

definition isoformat :: "datetime \<Rightarrow> string" where
  "isoformat t =
     zero_pad 4 (nat (year t)) @ ''-'' @ zero_pad 2 (month t) @ ''-'' @ zero_pad 2 (day t)
     @ ''T'' @ zero_pad 2 (hour t) @ '':'' @ zero_pad 2 (minute t) @ '':'' @ zero_pad 2 (second t)
     @ (if microsecond t = 0 then [] else ''.'' @ zero_pad 6 (microsecond t))"

definition strftime_stamp :: "datetime \<Rightarrow> string" where
  "strftime_stamp t =
     str_nat (nat (year t)) @ zero_pad 2 (month t) @ zero_pad 2 (day t)
     @ ''_'' @ zero_pad 2 (hour t) @ zero_pad 2 (minute t) @ zero_pad 2 (second t)"

definition strftime_hm :: "datetime \<Rightarrow> string" where
  "strftime_hm t = zero_pad 2 (hour t) @ '':'' @ zero_pad 2 (minute t)"

subsection \<open>Calendar arithmetic\<close>

definition leap_year :: "int \<Rightarrow> bool" where
  "leap_year y \<longleftrightarrow> y mod 4 = 0 \<and> (y mod 100 \<noteq> 0 \<or> y mod 400 = 0)"

definition days_in_month :: "int \<Rightarrow> nat \<Rightarrow> nat" where
  "days_in_month y m =
     (if m = 2 then (if leap_year y then 29 else 28)
      else if m = 4 \<or> m = 6 \<or> m = 9 \<or> m = 11 then 30 else 31)"

definition previous_day :: "datetime \<Rightarrow> datetime" where
  "previous_day t =
     (if 1 < day t then t\<lparr>day := day t - 1\<rparr>
      else if 1 < month t then t\<lparr>month := month t - 1, day := days_in_month (year t) (month t - 1)\<rparr>
      else t\<lparr>year := year t - 1, month := 12, day := 31\<rparr>)"

text \<open>
  \<open>t - timedelta(days=n)\<close> for \<open>n \<ge> 0\<close>: the same time of day, \<open>n\<close> calendar days
  earlier. (Python raises \<open>OverflowError\<close> below the year 1; the year of the model has no
  lower bound, and the readings of a system clock are far from it.)
\<close>

definition minus_days :: "datetime \<Rightarrow> nat \<Rightarrow> datetime" where
  "minus_days t n = (previous_day ^^ n) t"

text \<open>\<open>t - timedelta(hours=n)\<close> for \<open>n < 24\<close>.\<close>

definition minus_hours :: "datetime \<Rightarrow> nat \<Rightarrow> datetime" where
  "minus_hours t n =
     (if n \<le> hour t then t\<lparr>hour := hour t - n\<rparr>
      else (previous_day t)\<lparr>hour := hour t + 24 - n\<rparr>)"

subsection \<open>Floating-point arithmetic\<close>

text \<open>
  A Python \<open>float\<close> is an IEEE 754 double: 53 significant bits, every operation rounded
  to the nearest double, ties to the even significand. \<open>rne\<close> rounds a real number to the
  nearest integer in that way, \<open>expo x\<close> is the binary exponent of a positive \<open>x\<close>
  (\<open>2 powi expo x \<le> x < 2 powi (expo x + 1)\<close>) and \<open>double_of x\<close> is the double
  nearest to \<open>x\<close>. The exponent is not bounded here: the doubles of this program are
  zero or lie between \<open>2 powi (-60)\<close> and \<open>2 powi 20\<close> in magnitude, far from
  overflow and from the subnormal numbers.
\<close>

definition rne :: "real \<Rightarrow> int" where
  "rne x =
     (let f = \<lfloor>x\<rfloor>; d = x - of_int f
      in if d < 1 / 2 then f else if 1 / 2 < d then f + 1 else if even f then f else f + 1)"

function expo :: "real \<Rightarrow> int" where
  "expo x =
     (if x \<le> 0 then 0
      else if 2 \<le> x then expo (x / 2) + 1
      else if x < 1 then expo (2 * x) - 1
      else 0)"
  by pat_completeness auto
termination
proof (relation "measure (\<lambda>x. nat \<bar>\<lfloor>log 2 x\<rfloor>\<bar>)")
  show "wf (measure (\<lambda>x. nat \<bar>\<lfloor>log 2 x\<rfloor>\<bar>))" by simp
next
  fix x :: real
  assume "\<not> x \<le> 0" "2 \<le> x"
  then have "log 2 (x / 2) = log 2 x - 1" "1 \<le> log 2 x"
    by (simp_all add: log_divide le_log_iff)
  then have "\<lfloor>log 2 (x / 2)\<rfloor> = \<lfloor>log 2 x\<rfloor> - 1" "1 \<le> \<lfloor>log 2 x\<rfloor>"
    by (simp_all add: le_floor_iff)
  then have "nat \<bar>\<lfloor>log 2 (x / 2)\<rfloor>\<bar> < nat \<bar>\<lfloor>log 2 x\<rfloor>\<bar>"
    by linarith
  then show "(x / 2, x) \<in> measure (\<lambda>x. nat \<bar>\<lfloor>log 2 x\<rfloor>\<bar>)"
    by simp
next
  fix x :: real
  assume "\<not> x \<le> 0" "\<not> 2 \<le> x" "x < 1"
  then have "log 2 (2 * x) = 1 + log 2 x" "log 2 x < 0"
    by (simp_all add: log_mult)
  then have "\<lfloor>log 2 (2 * x)\<rfloor> = 1 + \<lfloor>log 2 x\<rfloor>" "\<lfloor>log 2 x\<rfloor> < 0"
    by (simp, simp add: floor_less_iff)
  then have "nat \<bar>\<lfloor>log 2 (2 * x)\<rfloor>\<bar> < nat \<bar>\<lfloor>log 2 x\<rfloor>\<bar>"
    by linarith
  then show "(2 * x, x) \<in> measure (\<lambda>x. nat \<bar>\<lfloor>log 2 x\<rfloor>\<bar>)"
    by simp
qed

declare expo.simps [simp del]

definition ulp :: "real \<Rightarrow> real" where
  "ulp x = 2 powi (expo \<bar>x\<bar> - 52)"

definition double_of :: "real \<Rightarrow> real" where
  "double_of x = (if x = 0 then 0 else of_int (rne (x / ulp x)) * ulp x)"

text \<open>The operations on floats, each one the exact result rounded once.\<close>

definition fadd :: "real \<Rightarrow> real \<Rightarrow> real" where
  "fadd x y = double_of (x + y)"

definition fsub :: "real \<Rightarrow> real \<Rightarrow> real" where
  "fsub x y = double_of (x - y)"

definition fmul :: "real \<Rightarrow> real \<Rightarrow> real" where
  "fmul x y = double_of (x * y)"

text \<open>\<open>a / b\<close> on two \<open>int\<close>s: the quotient is rounded once; a zero divisor raises.\<close>

definition int_truediv :: "int \<Rightarrow> int \<Rightarrow> py_error + real" where
  "int_truediv a b = (if b = 0 then Inl ZeroDivisionError else Inr (double_of (of_int a / of_int b)))"

text \<open>
  \<open>round(x, 1)\<close> on a float: the exact value of \<open>x\<close> is rounded to one decimal, ties
  to the even digit, and the decimal is converted back to the nearest double.
\<close>

definition round1 :: "real \<Rightarrow> real" where
  "round1 x = double_of (of_int (rne (x * 10)) / 10)"

subsection \<open>The world outside the program\<close>

text \<open>
  What \<open>open('frontend/index.html', 'r', encoding='utf-8')\<close> and \<open>f.read()\<close> meet:
  \<^item> \<open>Missing\<close>: the file, or the directory \<open>frontend\<close>, does not exist
    (\<open>FileNotFoundError\<close>);
  \<^item> \<open>NotADirectory\<close>: the file does not exist because \<open>frontend\<close> is not a
    directory (\<open>NotADirectoryError\<close>);
  \<^item> \<open>IsADirectory\<close>: there is a directory at the path (\<open>IsADirectoryError\<close>);
  \<^item> \<open>PermissionDenied\<close>: the file exists and the process may not read it
    (\<open>PermissionError\<close>);
  \<^item> \<open>Undecodable\<close>: the file exists and its bytes are not UTF-8
    (\<open>UnicodeDecodeError\<close>, raised by \<open>read\<close>);
  \<^item> \<open>OtherFailure\<close>: any other error of the operating system while opening or
    reading (an \<open>OSError\<close> that is none of the above);
  \<^item> \<open>Readable contents\<close>: the file exists and decodes to \<open>contents\<close>.
\<close>

datatype file_state =
    Missing
  | NotADirectory
  | IsADirectory
  | PermissionDenied
  | Undecodable
  | OtherFailure
  | Readable string

text \<open>
  \<open>rand_src\<close> is the sequence of raw outputs the generator behind \<open>random\<close> is going
  to deliver, one per call of \<open>random.randint\<close>, \<open>random.choice\<close> or
  \<open>random.uniform\<close>; \<open>clock_src\<close> is the sequence of readings \<open>datetime.now()\<close> is
  going to return. \<open>frontend_index\<close> is the state of the file \<open>frontend/index.html\<close>.
  \<open>json_415\<close> tells the behaviour of the installed Flask on a request that carries no
  JSON document: since version 2.1 \<open>request.json\<close> raises 415 there, before it is
  \<open>None\<close>. \<open>py_str\<close> is Python's \<open>str()\<close> on the values that are not strings.
\<close>

record world =
  rand_src :: "nat \<Rightarrow> nat"
  clock_src :: "nat \<Rightarrow> datetime"
  frontend_index :: file_state
  json_415 :: bool
  py_str :: "pyval \<Rightarrow> string"

definition draw :: "world \<Rightarrow> nat \<times> world" where
  "draw w = (rand_src w 0, w\<lparr>rand_src := (\<lambda>n. rand_src w (n + 1))\<rparr>)"

definition now :: "world \<Rightarrow> datetime \<times> world" where
  "now w = (clock_src w 0, w\<lparr>clock_src := (\<lambda>n. clock_src w (n + 1))\<rparr>)"

text \<open>
  The functions of the module \<open>random\<close>, as functions of the raw output \<open>r\<close>.
  \<open>randint lo hi\<close> is \<open>lo\<close> plus a number below \<open>hi - lo + 1\<close>; \<open>choice\<close> indexes
  the sequence with a number below its length (all call sites pass a literal list that
  is not empty, and literal bounds \<open>lo \<le> hi\<close>); \<open>random()\<close> is a multiple of
  \<open>1 / 2 ^ 53\<close> below 1, and \<open>uniform a b\<close> is \<open>a + (b - a) * random()\<close> in floats.
\<close>

definition randint :: "int \<Rightarrow> int \<Rightarrow> nat \<Rightarrow> int" where
  "randint lo hi r = lo + int (r mod nat (hi - lo + 1))"

fun choice :: "'a list \<Rightarrow> nat \<Rightarrow> 'a" where
  "choice (x # xs) r = (x # xs) ! (r mod length (x # xs))"

definition random_unit :: "nat \<Rightarrow> real" where
  "random_unit r = of_nat (r mod 2 ^ 53) / 2 ^ 53"

definition uniform :: "real \<Rightarrow> real \<Rightarrow> nat \<Rightarrow> real" where
  "uniform a b r = fadd a (fmul (fsub b a) (random_unit r))"

text \<open>The formatting of a value inside an f-string.\<close>

definition format_value :: "world \<Rightarrow> pyval \<Rightarrow> string" where
  "format_value w v = (case v of PStr s \<Rightarrow> s | _ \<Rightarrow> py_str w v)"

definition quoted :: "string \<Rightarrow> string" where
  "quoted s = [CHR 0x27] @ s @ [CHR 0x27]"

subsection \<open>The data store\<close>

text \<open>
  The worker, shift and metrics dicts have a fixed set of keys each, so they are records
  here; \<open>worker_json\<close>, \<open>shift_json\<close> and \<open>metrics_json\<close> give the dict that
  \<open>jsonify\<close> receives. The key \<open>id\<close> of a worker is the field \<open>worker_id\<close>.
\<close>

record worker =
  worker_id :: string
  name :: string
  age :: int
  zone :: string
  status :: string
  ppe_compliance :: bool
  certification_valid :: bool
  last_safety_training :: datetime

record shift =
  shift_id :: string
  shift_name :: string
  start_time :: string
  end_time :: string
  workers_assigned :: int
  supervisor :: string
  tasks :: "string list"

record metrics =
  production_rate :: int
  efficiency :: real
  temperature :: int
  energy_consumption :: real
  co2_emissions :: int

definition worker_json :: "worker \<Rightarrow> pyval" where
  "worker_json wk = PDict
     [(''id'', PStr (worker_id wk)),
      (''name'', PStr (name wk)),
      (''age'', PInt (age wk)),
      (''zone'', PStr (zone wk)),
      (''status'', PStr (status wk)),
      (''ppe_compliance'', PBool (ppe_compliance wk)),
      (''certification_valid'', PBool (certification_valid wk)),
      (''last_safety_training'', PDatetime (last_safety_training wk))]"

definition shift_json :: "shift \<Rightarrow> pyval" where
  "shift_json sh = PDict
     [(''shift_id'', PStr (shift_id sh)),
      (''shift_name'', PStr (shift_name sh)),
      (''start_time'', PStr (start_time sh)),
      (''end_time'', PStr (end_time sh)),
      (''workers_assigned'', PInt (workers_assigned sh)),
      (''supervisor'', PStr (supervisor sh)),
      (''tasks'', PList (map PStr (tasks sh)))]"

definition metrics_json :: "metrics \<Rightarrow> pyval" where
  "metrics_json m = PDict
     [(''production_rate'', PInt (production_rate m)),
      (''efficiency'', PFloat (efficiency m)),
      (''temperature'', PInt (temperature m)),
      (''energy_consumption'', PFloat (energy_consumption m)),
      (''co2_emissions'', PInt (co2_emissions m))]"

text \<open>
  \<open>PlantDataStore\<close>. The metrics dict is the one object of the program that a handler
  copies and then updates in place, so the store holds its address, and the dict itself
  lives in the \<open>heap\<close> of the process: the list of the metrics dicts allocated so far,
  an address being an index into it.
\<close>

record PlantDataStore =
  workers :: "worker list"
  safety_violations :: "pyval list"
  production_metrics :: nat
  schedules :: "shift list"

record process =
  plant_data :: PlantDataStore
  heap :: "metrics list"

definition statuses :: "string list" where
  "statuses = [''Safe'', ''PPE Missing'', ''Training Required'', ''Off Duty'']"

definition zones :: "string list" where
  "zones = [''Zone A'', ''Zone B'', ''Zone C'', ''Zone D'']"

text \<open>The body of the loop of \<open>generate_mock_workers\<close>: the worker number \<open>i\<close>.\<close>

definition mock_worker :: "nat \<Rightarrow> world \<Rightarrow> worker \<times> world" where
  "mock_worker i w0 =
     (let (r1, w1) = draw w0;
          (r2, w2) = draw w1;
          (r3, w3) = draw w2;
          (r4, w4) = draw w3;
          (t, w5) = now w4;
          (r5, w6) = draw w5
      in (\<lparr>worker_id = ''W'' @ str_int (1000 + int i),
           name = ''Worker '' @ str_int (int i),
           age = randint 22 60 r1,
           zone = choice zones r2,
           status = choice statuses r3,
           ppe_compliance = choice [True, False] r4,
           certification_valid = True,
           last_safety_training = minus_days t (nat (randint 1 90 r5))\<rparr>, w6))"

fun mock_workers_loop :: "nat list \<Rightarrow> worker list \<Rightarrow> world \<Rightarrow> worker list \<times> world" where
  "mock_workers_loop [] acc w = (acc, w)"
| "mock_workers_loop (i # rest) acc w =
     (let (wk, w') = mock_worker i w in mock_workers_loop rest (acc @ [wk]) w')"

definition generate_mock_workers :: "world \<Rightarrow> worker list \<times> world" where
  "generate_mock_workers w = mock_workers_loop [1..<51] [] w"

definition generate_mock_schedules :: "shift list" where
  "generate_mock_schedules =
     [\<lparr>shift_id = ''A001'', shift_name = ''Morning Shift'', start_time = ''06:00'',
       end_time = ''14:00'', workers_assigned = 25, supervisor = ''John Supervisor'',
       tasks = [''Production'', ''Quality Control'', ''Maintenance'']\<rparr>,
      \<lparr>shift_id = ''B001'', shift_name = ''Afternoon Shift'', start_time = ''14:00'',
       end_time = ''22:00'', workers_assigned = 22, supervisor = ''Mary Manager'',
       tasks = [''Production'', ''Equipment Check'', ''Safety Audit'']\<rparr>,
      \<lparr>shift_id = ''C001'', shift_name = ''Night Shift'', start_time = ''22:00'',
       end_time = ''06:00'', workers_assigned = 15, supervisor = ''Bob Controller'',
       tasks = [''Maintenance'', ''Deep Cleaning'', ''System Check'']\<rparr>]"

text \<open>The literals \<open>87.3\<close> and \<open>85.2\<close> are the doubles nearest to them.\<close>

definition baseline_metrics :: metrics where
  "baseline_metrics =
     \<lparr>production_rate = 2450, efficiency = double_of (873 / 10), temperature = 1480,
      energy_consumption = double_of (852 / 10), co2_emissions = - 12\<rparr>"

text \<open>
  \<open>plant_data = PlantDataStore()\<close>: the body of \<open>__init__\<close>, which gives the state
  of the process when it starts to serve.
\<close>

definition startup :: "world \<Rightarrow> process \<times> world" where
  "startup w =
     (let (ws, w') = generate_mock_workers w
      in (\<lparr>plant_data =
             \<lparr>workers = ws, safety_violations = [], production_metrics = 0,
              schedules = generate_mock_schedules\<rparr>,
           heap = [baseline_metrics]\<rparr>, w'))"

subsection \<open>Requests and responses\<close>

datatype resp_body = Json pyval | Text string

record http_response =
  payload :: resp_body
  status_code :: nat

definition jsonify :: "pyval \<Rightarrow> http_response" where
  "jsonify v = \<lparr>payload = Json v, status_code = 200\<rparr>"

text \<open>
  What a POST request carries: no JSON document at all (no body, or a content type that
  is not JSON), a body declared as JSON that does not parse, or a JSON document.
  \<open>request_json\<close> is Flask's \<open>request.json\<close>.
\<close>

datatype json_body = NoJson | BadJson | JsonDoc pyval

definition request_json :: "world \<Rightarrow> json_body \<Rightarrow> py_error + pyval" where
  "request_json w b =
     (case b of
        NoJson \<Rightarrow> if json_415 w then Inl UnsupportedMediaType else Inr PNone
      | BadJson \<Rightarrow> Inl BadRequest
      | JsonDoc v \<Rightarrow> Inr v)"

subsection \<open>The handlers\<close>

text \<open>
  \<open>index\<close> catches \<open>FileNotFoundError\<close> and nothing else: every other exception of
  \<open>open\<close> or \<open>read\<close> leaves the handler.
\<close>

definition index :: "world \<Rightarrow> py_error + http_response" where
  "index w =
     (case frontend_index w of
        Readable contents \<Rightarrow> Inr \<lparr>payload = Text contents, status_code = 200\<rparr>
      | Missing \<Rightarrow>
          Inr \<lparr>payload = Json (PDict
                 [(''error'',
                   PStr ''Frontend not found. Please ensure index.html exists in frontend folder'')]),
               status_code = 404\<rparr>
      | NotADirectory \<Rightarrow> Inl NotADirectoryError
      | IsADirectory \<Rightarrow> Inl IsADirectoryError
      | PermissionDenied \<Rightarrow> Inl PermissionError
      | Undecodable \<Rightarrow> Inl UnicodeDecodeError
      | OtherFailure \<Rightarrow> Inl OSError)"

definition health_check :: "world \<Rightarrow> http_response \<times> world" where
  "health_check w0 =
     (let (t, w1) = now w0
      in (jsonify (PDict
            [(''status'', PStr ''healthy''),
             (''timestamp'', PStr (isoformat t)),
             (''version'', PStr ''1.0.0''),
             (''services'', PDict
                [(''ai_engine'', PStr ''online''),
                 (''safety_monitor'', PStr ''online''),
                 (''database'', PStr ''online'')])]), w1))"

text \<open>
  \<open>metrics = plant_data.production_metrics.copy()\<close> allocates a new dict at the address
  \<open>a\<close>; the three augmented assignments update the dict at \<open>a\<close> in place.
\<close>

definition get_operations_metrics :: "process \<Rightarrow> world \<Rightarrow> http_response \<times> process \<times> world" where
  "get_operations_metrics p w0 =
     (let a = length (heap p);
          h0 = heap p @ [heap p ! production_metrics (plant_data p)];
          (r1, w1) = draw w0;
          h1 = h0[a := (h0 ! a)\<lparr>production_rate := production_rate (h0 ! a) + randint (- 50) 50 r1\<rparr>];
          (r2, w2) = draw w1;
          h2 = h1[a := (h1 ! a)\<lparr>efficiency := fadd (efficiency (h1 ! a)) (uniform (- 2) 2 r2)\<rparr>];
          (r3, w3) = draw w2;
          h3 = h2[a := (h2 ! a)\<lparr>temperature := temperature (h2 ! a) + randint (- 20) 20 r3\<rparr>];
          (t, w4) = now w3
      in (jsonify (PDict
            [(''status'', PStr ''success''),
             (''data'', metrics_json (h3 ! a)),
             (''timestamp'', PStr (isoformat t))]),
          p\<lparr>heap := h3\<rparr>, w4))"

definition get_worker_safety_status :: "process \<Rightarrow> world \<Rightarrow> (py_error + http_response) \<times> world" where
  "get_worker_safety_status p w0 =
     (let ws = workers (plant_data p);
          total_workers = int (length ws);
          safe_workers = int (length (filter (\<lambda>wk. status wk = ''Safe'') ws));
          ppe_compliant = int (length (filter (\<lambda>wk. ppe_compliance wk) ws));
          violations = int (length (filter
             (\<lambda>wk. status wk \<in> set [''PPE Missing'', ''Training Required'']) ws))
      in case int_truediv ppe_compliant total_workers of
           Inl e \<Rightarrow> (Inl e, w0)
         | Inr ppe_fraction \<Rightarrow>
        (case int_truediv safe_workers total_workers of
           Inl e \<Rightarrow> (Inl e, w0)
         | Inr safe_fraction \<Rightarrow>
        (let (t, w1) = now w0
         in (Inr (jsonify (PDict
               [(''status'', PStr ''success''),
                (''data'', PDict
                   [(''workers'', PList (map worker_json (take 10 ws))),
                    (''statistics'', PDict
                       [(''total_workers'', PInt total_workers),
                        (''safe_workers'', PInt safe_workers),
                        (''ppe_compliance_rate'', PFloat (round1 (fmul ppe_fraction 100))),
                        (''violations_today'', PInt violations),
                        (''safety_score'', PFloat (round1 (fmul safe_fraction 100)))])]),
                (''timestamp'', PStr (isoformat t))])), w1))))"

definition get_safety_violations :: "world \<Rightarrow> http_response \<times> world" where
  "get_safety_violations w0 =
     (let (t1, w1) = now w0;
          (t2, w2) = now w1;
          violations =
            [PDict [(''id'', PStr ''V001''),
                    (''worker_id'', PStr ''W1047''),
                    (''worker_name'', PStr ''Ahmed Hassan''),
                    (''violation_type'', PStr ''PPE Missing''),
                    (''location'', PStr ''Zone B''),
                    (''severity'', PStr ''Medium''),
                    (''timestamp'', PStr (isoformat (minus_hours t1 2))),
                    (''resolved'', PBool False)],
             PDict [(''id'', PStr ''V002''),
                    (''worker_id'', PStr ''W1023''),
                    (''worker_name'', PStr ''Lisa Chen''),
                    (''violation_type'', PStr ''Unauthorized Zone Access''),
                    (''location'', PStr ''Zone D''),
                    (''severity'', PStr ''High''),
                    (''timestamp'', PStr (isoformat (minus_hours t2 5))),
                    (''resolved'', PBool True)]];
          (t3, w3) = now w2
      in (jsonify (PDict
            [(''status'', PStr ''success''),
             (''data'', PList violations),
             (''timestamp'', PStr (isoformat t3))]), w3))"

text \<open>The shift that the hour \<open>current_time\<close> of the clock falls into.\<close>

definition current_shift :: "nat \<Rightarrow> string" where
  "current_shift current_time =
     (if 6 \<le> current_time \<and> current_time < 14 then ''Morning Shift''
      else if 14 \<le> current_time \<and> current_time < 22 then ''Afternoon Shift''
      else ''Night Shift'')"

definition get_current_schedule :: "process \<Rightarrow> world \<Rightarrow> http_response \<times> world" where
  "get_current_schedule p w0 =
     (let (t1, w1) = now w0;
          current_time = hour t1;
          (t2, w2) = now w1;
          (t3, w3) = now w2
      in (jsonify (PDict
            [(''status'', PStr ''success''),
             (''data'', PDict
                [(''schedules'', PList (map shift_json (schedules (plant_data p)))),
                 (''current_shift'', PStr (current_shift current_time)),
                 (''current_time'', PStr (strftime_hm t2))]),
             (''timestamp'', PStr (isoformat t3))]), w3))"

text \<open>The rupee sign is the three bytes of its UTF-8 encoding.\<close>

definition optimize_schedule :: "world \<Rightarrow> http_response \<times> world" where
  "optimize_schedule w0 =
     (let (r1, w1) = draw w0;
          (r2, w2) = draw w1;
          (r3, w3) = draw w2;
          (r4, w4) = draw w3;
          optimization_result = PDict
            [(''optimization_id'', PStr (''OPT_'' @ str_int (randint 1000 9999 r1))),
             (''improvements'', PDict
                [(''efficiency_gain'', PStr (str_int (randint 5 15 r2) @ ''%'')),
                 (''energy_savings'',
                    PStr ([CHR 0xE2, CHR 0x82, CHR 0xB9] @ str_int (randint 10000 50000 r3) @ ''/day'')),
                 (''safety_score_improvement'', PStr (str_int (randint 2 8 r4) @ '' points''))]),
             (''recommended_changes'', PList
                [PStr ''Redistribute workers from Zone A to Zone C during peak hours'',
                 PStr ''Schedule maintenance during low-production periods'',
                 PStr ''Implement staggered break times to maintain productivity'']),
             (''status'', PStr ''completed'')];
          (t, w5) = now w4
      in (jsonify (PDict
            [(''status'', PStr ''success''),
             (''message'', PStr ''Schedule optimization completed''),
             (''data'', optimization_result),
             (''timestamp'', PStr (isoformat t))]), w5))"

definition get_compliance_status :: "world \<Rightarrow> http_response \<times> world" where
  "get_compliance_status w0 =
     (let compliance_data = PDict
            [(''age_verification'', PDict
                [(''status'', PStr ''compliant''),
                 (''verified_workers'', PInt 50),
                 (''total_workers'', PInt 50),
                 (''compliance_rate'', PInt 100)]),
             (''safety_training'', PDict
                [(''status'', PStr ''mostly_compliant''),
                 (''completed_training'', PInt 48),
                 (''total_workers'', PInt 50),
                 (''compliance_rate'', PInt 96)]),
             (''environmental'', PDict
                [(''status'', PStr ''compliant''),
                 (''emissions_target'', PInt (- 10)),
                 (''current_emissions'', PInt (- 12)),
                 (''compliance_rate'', PInt 120)]),
             (''labor_standards'', PDict
                [(''status'', PStr ''compliant''),
                 (''working_hours_violations'', PInt 0),
                 (''overtime_compliance'', PInt 100),
                 (''break_time_compliance'', PInt 98)])];
          (t, w1) = now w0
      in (jsonify (PDict
            [(''status'', PStr ''success''),
             (''data'', compliance_data),
             (''timestamp'', PStr (isoformat t))]), w1))"

text \<open>
  The six f-strings of \<open>ai_chat\<close>, \<open>m\<close> being the formatted \<open>user_message\<close>. The
  degree sign is the two bytes of its UTF-8 encoding.
\<close>

definition ai_responses :: "string \<Rightarrow> string list" where
  "ai_responses m =
     [''Based on your query about '' @ quoted m
        @ '', I recommend optimizing kiln temperature to 1470'' @ [CHR 0xC2, CHR 0xB0]
        @ ''C for better efficiency.'',
      ''Regarding '' @ quoted m
        @ '', all safety protocols are currently being followed. Worker compliance is at 96%.'',
      ''For '' @ quoted m
        @ '', I suggest scheduling preventive maintenance during the next low-production period.'',
      ''Analyzing '' @ quoted m
        @ '': Energy consumption can be reduced by 8% through parameter adjustments.'',
      ''About '' @ quoted m
        @ '': Current production rate is optimal. Consider adjusting only if demand increases.'',
      ''Concerning '' @ quoted m
        @ '': All environmental targets are being met. CO2 emissions are 12% below target.'']"

definition suggestions :: "string list" where
  "suggestions =
     [''Would you like me to implement this recommendation?'',
      ''Should I schedule this change for the next maintenance window?'',
      ''Would you like a detailed analysis report?'']"

definition ai_chat :: "json_body \<Rightarrow> world \<Rightarrow> (py_error + http_response) \<times> world" where
  "ai_chat req w0 =
     (case request_json w0 req of
        Inl e \<Rightarrow> (Inl e, w0)
      | Inr doc \<Rightarrow>
     (case py_get doc ''message'' (PStr []) of
        Inl e \<Rightarrow> (Inl e, w0)
      | Inr user_message \<Rightarrow>
     (let (r1, w1) = draw w0;
          response = choice (ai_responses (format_value w0 user_message)) r1;
          (r2, w2) = draw w1;
          (t, w3) = now w2
      in (Inr (jsonify (PDict
            [(''status'', PStr ''success''),
             (''data'', PDict
                [(''user_message'', user_message),
                 (''ai_response'', PStr response),
                 (''confidence'', PFloat (uniform (double_of (85 / 100)) (double_of (98 / 100)) r2)),
                 (''suggestions'', PList (map PStr suggestions))]),
             (''timestamp'', PStr (isoformat t))])), w3))))"

definition generate_safety_report :: "json_body \<Rightarrow> world \<Rightarrow> (py_error + http_response) \<times> world" where
  "generate_safety_report req w0 =
     (let (t1, w1) = now w0;
          report_id = ''RPT_'' @ strftime_stamp t1
      in case request_json w1 req of
           Inl e \<Rightarrow> (Inl e, w1)
         | Inr doc \<Rightarrow>
        (case py_get doc ''period'' (PStr ''daily'') of
           Inl e \<Rightarrow> (Inl e, w1)
         | Inr period \<Rightarrow>
        (let (r1, w2) = draw w1;
             (r2, w3) = draw w2;
             (r3, w4) = draw w3;
             (r4, w5) = draw w4;
             (t2, w6) = now w5;
             report_data = PDict
               [(''report_id'', PStr report_id),
                (''period'', period),
                (''summary'', PDict
                   [(''total_incidents'', PInt (randint 0 3 r1)),
                    (''ppe_compliance_avg'', PFloat (uniform 94 98 r2)),
                    (''safety_training_completion'', PFloat (uniform 95 100 r3)),
                    (''safety_score'', PFloat (uniform 92 98 r4))]),
                (''recommendations'', PList
                   [PStr ''Increase safety training frequency in Zone B'',
                    PStr ''Install additional PPE monitoring cameras'',
                    PStr ''Implement reward system for safety compliance'']),
                (''generated_at'', PStr (isoformat t2))]
         in (Inr (jsonify (PDict
               [(''status'', PStr ''success''),
                (''message'', PStr ''Safety report generated successfully''),
                (''data'', report_data),
                (''download_url'', PStr (''/api/reports/download/'' @ report_id))])), w6))))"

definition emergency_stop :: "json_body \<Rightarrow> world \<Rightarrow> (py_error + http_response) \<times> world" where
  "emergency_stop req w0 =
     (let (t1, w1) = now w0;
          stop_id = ''ESTOP_'' @ strftime_stamp t1
      in case request_json w1 req of
           Inl e \<Rightarrow> (Inl e, w1)
         | Inr doc \<Rightarrow>
        (case py_get doc ''user_id'' (PStr ''system'') of
           Inl e \<Rightarrow> (Inl e, w1)
         | Inr initiated_by \<Rightarrow>
        (case py_get doc ''reason'' (PStr ''Manual emergency stop'') of
           Inl e \<Rightarrow> (Inl e, w1)
         | Inr reason \<Rightarrow>
        (let emergency_response = PDict
               [(''stop_id'', PStr stop_id),
                (''initiated_by'', initiated_by),
                (''reason'', reason),
                (''affected_systems'', PList
                   [PStr ''Production Line 1'',
                    PStr ''Production Line 2'',
                    PStr ''Kiln Operations'',
                    PStr ''Conveyor Systems'']),
                (''response_time'', PStr ''< 5 seconds''),
                (''status'', PStr ''emergency_stop_active'')];
             (t2, w2) = now w1
         in (Inr (jsonify (PDict
               [(''status'', PStr ''success''),
                (''message'', PStr ''Emergency stop activated successfully''),
                (''data'', emergency_response),
                (''timestamp'', PStr (isoformat t2))])), w2)))))"

subsection \<open>The routes and a run of the server\<close>

datatype request =
    GetIndex
  | GetHealth
  | GetOperationsMetrics
  | GetSafetyWorkers
  | GetSafetyViolations
  | GetScheduleCurrent
  | PostScheduleOptimize
  | GetComplianceStatus
  | PostAiChat json_body
  | PostReportsSafety json_body
  | PostEmergencyStop json_body

type_synonym outcome = "py_error + http_response"

fun handle :: "process \<Rightarrow> world \<Rightarrow> request \<Rightarrow> outcome \<times> process \<times> world" where
  "handle p w GetIndex = (index w, p, w)"
| "handle p w GetHealth = (let (r, w') = health_check w in (Inr r, p, w'))"
| "handle p w GetOperationsMetrics =
     (let (r, p', w') = get_operations_metrics p w in (Inr r, p', w'))"
| "handle p w GetSafetyWorkers = (let (r, w') = get_worker_safety_status p w in (r, p, w'))"
| "handle p w GetSafetyViolations = (let (r, w') = get_safety_violations w in (Inr r, p, w'))"
| "handle p w GetScheduleCurrent = (let (r, w') = get_current_schedule p w in (Inr r, p, w'))"
| "handle p w PostScheduleOptimize = (let (r, w') = optimize_schedule w in (Inr r, p, w'))"
| "handle p w GetComplianceStatus = (let (r, w') = get_compliance_status w in (Inr r, p, w'))"
| "handle p w (PostAiChat b) = (let (r, w') = ai_chat b w in (r, p, w'))"
| "handle p w (PostReportsSafety b) = (let (r, w') = generate_safety_report b w in (r, p, w'))"
| "handle p w (PostEmergencyStop b) = (let (r, w') = emergency_stop b w in (r, p, w'))"

text \<open>
  The requests of a run, served one after the other; a handler that raises ends its
  request only, and the process goes on.
\<close>

fun run :: "process \<Rightarrow> world \<Rightarrow> request list \<Rightarrow> outcome list \<times> process \<times> world" where
  "run p w [] = ([], p, w)"
| "run p w (rq # rqs) =
     (let (r, p', w') = handle p w rq;
          (rs, p'', w'') = run p' w' rqs
      in (r # rs, p'', w''))"

subsection \<open>Reading a response\<close>

definition body_json :: "http_response \<Rightarrow> pyval" where
  "body_json r = (case payload r of Json v \<Rightarrow> v | Text _ \<Rightarrow> PNone)"

fun lookup_path :: "pyval \<Rightarrow> string list \<Rightarrow> pyval option" where
  "lookup_path v [] = Some v"
| "lookup_path v (k # ks) = (case dict_item v k of None \<Rightarrow> None | Some v' \<Rightarrow> lookup_path v' ks)"

subsection \<open>The state of the process\<close>

text \<open>
  A process is well formed when the address in its store points into its heap.
  \<open>perturbed b w\<close> is the dict that the metrics handler builds from the dict \<open>b\<close> in
  the world \<open>w\<close>. \<open>response_worker_ids r\<close> are the values under \<open>id\<close> of the worker
  records in the response \<open>r\<close>.
\<close>

definition well_formed :: "process \<Rightarrow> bool" where
  "well_formed p \<longleftrightarrow> production_metrics (plant_data p) < length (heap p)"

definition perturbed :: "metrics \<Rightarrow> world \<Rightarrow> metrics" where
  "perturbed b w =
     b\<lparr>production_rate := production_rate b + randint (- 50) 50 (rand_src w 0),
       efficiency := fadd (efficiency b) (uniform (- 2) 2 (rand_src w 1)),
       temperature := temperature b + randint (- 20) 20 (rand_src w 2)\<rparr>"

definition response_worker_ids :: "http_response \<Rightarrow> pyval option list" where
  "response_worker_ids r =
     (case lookup_path (body_json r) [''data'', ''workers''] of
        Some (PList records) \<Rightarrow> map (\<lambda>record. dict_item record ''id'') records
      | _ \<Rightarrow> [])"

subsection \<open>The timestamp of a response\<close>

text \<open>
  \<open>stamped w r w' n\<close>: the response \<open>r\<close> of a handler that started in the world \<open>w\<close>
  and left the world \<open>w'\<close> carries a top-level \<open>timestamp\<close>, the ISO format of the
  clock reading number \<open>n\<close>, and this reading is the last one the handler took.
  \<open>readings_before_stamp\<close> is the number of clock readings that a handler takes before
  the one it stamps its response with.
\<close>

definition stamped :: "world \<Rightarrow> http_response \<Rightarrow> world \<Rightarrow> nat \<Rightarrow> bool" where
  "stamped w r w' n \<longleftrightarrow>
     dict_item (body_json r) ''timestamp'' = Some (PStr (isoformat (clock_src w n)))
     \<and> clock_src w' = (\<lambda>k. clock_src w (k + (n + 1)))"

fun readings_before_stamp :: "request \<Rightarrow> nat" where
  "readings_before_stamp GetSafetyViolations = 2"
| "readings_before_stamp GetScheduleCurrent = 2"
| "readings_before_stamp (PostEmergencyStop b) = 1"
| "readings_before_stamp _ = 0"

subsection \<open>The closed form of the startup loop\<close>

text \<open>
  \<open>advance w nr nc\<close> is the world after \<open>nr\<close> calls of the generator and \<open>nc\<close>
  readings of the clock; \<open>worker_at w i\<close> is the worker number \<open>i\<close> as the loop body
  builds it in the world \<open>w\<close>.
\<close>

definition advance :: "world \<Rightarrow> nat \<Rightarrow> nat \<Rightarrow> world" where
  "advance w nr nc =
     w\<lparr>rand_src := (\<lambda>n. rand_src w (n + nr)), clock_src := (\<lambda>n. clock_src w (n + nc))\<rparr>"

definition worker_at :: "world \<Rightarrow> nat \<Rightarrow> worker" where
  "worker_at w i =
     \<lparr>worker_id = ''W'' @ str_int (1000 + int i),
      name = ''Worker '' @ str_int (int i),
      age = randint 22 60 (rand_src w 0),
      zone = choice zones (rand_src w 1),
      status = choice statuses (rand_src w 2),
      ppe_compliance = choice [True, False] (rand_src w 3),
      certification_valid = True,
      last_safety_training = minus_days (clock_src w 0) (nat (randint 1 90 (rand_src w 4)))\<rparr>"

subsection \<open>Sample inputs\<close>

definition sample_time :: datetime where
  "sample_time = \<lparr>year = 2024, month = 3, day = 1, hour = 13, minute = 5, second = 9, microsecond = 250\<rparr>"

definition sample_world :: world where
  "sample_world =
     \<lparr>rand_src = (\<lambda>n. 7 * n + 3), clock_src = (\<lambda>n. sample_time),
      frontend_index = Missing, json_415 = True, py_str = (\<lambda>v. ''?'')\<rparr>"

text \<open>A world whose generator delivers the largest raw output every time.\<close>

definition top_world :: world where
  "top_world = sample_world\<lparr>rand_src := (\<lambda>n. 2 ^ 53 - 1)\<rparr>"

section \<open>Properties\<close>

subsection \<open>The random module\<close>

lemma randint_bounds: "lo \<le> hi \<Longrightarrow> lo \<le> randint lo hi r \<and> randint lo hi r \<le> hi"
proof -
  assume "lo \<le> hi"
  then have "0 < nat (hi - lo + 1)" by simp
  then have "r mod nat (hi - lo + 1) < nat (hi - lo + 1)" by (rule mod_less_divisor)
  then show ?thesis unfolding randint_def by linarith
qed

lemma choice_in_set: "choice (x # xs) r \<in> set (x # xs)"
proof -
  have "r mod length (x # xs) < length (x # xs)" by simp
  then have "(x # xs) ! (r mod length (x # xs)) \<in> set (x # xs)" by (rule nth_mem)
  then show ?thesis by simp
qed

subsection \<open>Rounding\<close>

lemma expo_bounds: "0 < x \<Longrightarrow> 2 powi expo x \<le> x \<and> x < 2 powi (expo x + 1)"
proof (induction x rule: expo.induct)
  case (1 x)
  show ?case
  proof (cases "2 \<le> x")
    case True
    then have e: "expo x = expo (x / 2) + 1" by (subst expo.simps) simp
    from 1(1) True 1(3) have "2 powi expo (x / 2) \<le> x / 2 \<and> x / 2 < 2 powi (expo (x / 2) + 1)"
      by simp
    then show ?thesis unfolding e by (simp add: power_int_add)
  next
    case False
    show ?thesis
    proof (cases "x < 1")
      case True
      with False 1(3) have e: "expo x = expo (2 * x) - 1" by (subst expo.simps) simp
      from 1(2) False True 1(3) have "2 powi expo (2 * x) \<le> 2 * x \<and> 2 * x < 2 powi (expo (2 * x) + 1)"
        by simp
      then show ?thesis unfolding e by (simp add: power_int_add power_int_diff)
    next
      case F2: False
      with False 1(3) have "expo x = 0" by (subst expo.simps) simp
      with False F2 show ?thesis by simp
    qed
  qed
qed

lemma expo_unique:
  assumes "0 < x" "2 powi e \<le> x" "x < 2 powi (e + 1)"
  shows "expo x = e"
proof -
  from expo_bounds [OF assms(1)]
  have b: "2 powi expo x \<le> x" "x < 2 powi (expo x + 1)" by simp_all
  have "\<not> expo x + 1 \<le> e"
  proof
    assume "expo x + 1 \<le> e"
    then have "(2::real) powi (expo x + 1) \<le> 2 powi e"
      by (intro power_int_increasing) simp_all
    with b(2) assms(2) show False by linarith
  qed
  moreover have "\<not> e + 1 \<le> expo x"
  proof
    assume "e + 1 \<le> expo x"
    then have "(2::real) powi (e + 1) \<le> 2 powi expo x"
      by (intro power_int_increasing) simp_all
    with b(1) assms(3) show False by linarith
  qed
  ultimately show ?thesis by linarith
qed

lemma expo_mono: "0 < x \<Longrightarrow> x \<le> y \<Longrightarrow> expo x \<le> expo y"
proof (rule ccontr)
  assume x: "0 < x" and xy: "x \<le> y" and "\<not> expo x \<le> expo y"
  then have "expo y + 1 \<le> expo x" by simp
  then have "(2::real) powi (expo y + 1) \<le> 2 powi expo x"
    by (intro power_int_increasing) simp_all
  moreover from x xy have "y < 2 powi (expo y + 1)" using expo_bounds [of y] by simp
  moreover from x have "2 powi expo x \<le> x" using expo_bounds [of x] by simp
  ultimately show False using xy by linarith
qed

lemma rne_of_int: "rne (of_int n) = n"
  by (simp add: rne_def)

lemma rne_cases: "rne x = \<lfloor>x\<rfloor> \<or> rne x = \<lfloor>x\<rfloor> + 1"
  by (simp add: rne_def Let_def)

lemma rne_mono:
  assumes "x \<le> y"
  shows "rne x \<le> rne y"
proof (cases "\<lfloor>x\<rfloor> = \<lfloor>y\<rfloor>")
  case True
  with assms show ?thesis
    unfolding rne_def Let_def by (auto; linarith)
next
  case False
  with assms have "\<lfloor>x\<rfloor> + 1 \<le> \<lfloor>y\<rfloor>"
    using floor_mono [of x y] by linarith
  moreover have "rne x \<le> \<lfloor>x\<rfloor> + 1" using rne_cases [of x] by linarith
  moreover have "\<lfloor>y\<rfloor> \<le> rne y" using rne_cases [of y] by linarith
  ultimately show ?thesis by linarith
qed

lemma floor_minus_nonint:
  assumes "x \<noteq> of_int \<lfloor>x\<rfloor>"
  shows "\<lfloor>- x\<rfloor> = - \<lfloor>x\<rfloor> - 1"
proof (rule floor_unique)
  have "of_int \<lfloor>x\<rfloor> \<le> x" "x < of_int \<lfloor>x\<rfloor> + 1" by linarith+
  with assms have "of_int \<lfloor>x\<rfloor> < x" "x < of_int \<lfloor>x\<rfloor> + 1" by linarith+
  then show "of_int (- \<lfloor>x\<rfloor> - 1) \<le> - x" "- x < of_int (- \<lfloor>x\<rfloor> - 1) + 1"
    by simp_all
qed

lemma rne_minus: "rne (- x) = - rne x"
proof (cases "x = of_int \<lfloor>x\<rfloor>")
  case True
  then obtain n where n: "x = of_int n" ..
  have "rne (- of_int n) = rne (of_int (- n))" by simp
  also have "\<dots> = - n" by (rule rne_of_int)
  finally show ?thesis unfolding n by (simp only: rne_of_int)
next
  case False
  define f where "f = \<lfloor>x\<rfloor>"
  define d where "d = x - of_int f"
  have fm: "\<lfloor>- x\<rfloor> = - f - 1" unfolding f_def using False by (rule floor_minus_nonint)
  have dm: "- x - of_int (- f - 1) = 1 - d" by (simp add: d_def)
  have ev: "even (- f - 1) \<longleftrightarrow> odd f" by simp
  have r1: "rne x = (if d < 1 / 2 then f else if 1 / 2 < d then f + 1 else if even f then f else f + 1)"
    by (simp add: rne_def Let_def f_def d_def)
  have r2: "rne (- x) = (if 1 - d < 1 / 2 then - f - 1 else if 1 / 2 < 1 - d then - f
              else if odd f then - f - 1 else - f)"
    unfolding rne_def Let_def fm dm ev by simp
  consider "d < 1 / 2" | "1 / 2 < d" | "d = 1 / 2" by linarith
  then show ?thesis
  proof cases
    case 1 then show ?thesis unfolding r1 r2 by simp
  next
    case 2 then show ?thesis unfolding r1 r2 by simp
  next
    case 3 then show ?thesis unfolding r1 r2 by simp
  qed
qed

lemma double_of_pos:
  assumes "0 < x" "2 powi e \<le> x" "x < 2 powi (e + 1)"
  shows "double_of x = of_int (rne (x / 2 powi (e - 52))) * 2 powi (e - 52)"
proof -
  from assms have "expo x = e" by (rule expo_unique)
  with assms(1) show ?thesis by (simp add: double_of_def ulp_def)
qed

text \<open>
  How a double is computed: scale \<open>x\<close> by the power of two that brings it between
  \<open>2 ^ 52\<close> and \<open>2 ^ 53\<close>, round to an integer, scale back.
\<close>

lemma double_of_scaled:
  assumes "2 ^ 52 \<le> x * 2 ^ k" "x * 2 ^ k < 2 ^ 53"
  shows "double_of x = of_int (rne (x * 2 ^ k)) / 2 ^ k"
proof -
  have p: "(2::real) powi (52 - int k) = 2 ^ 52 / 2 ^ k"
    by (simp add: power_int_diff)
  have p1: "(2::real) powi (52 - int k + 1) = 2 ^ 53 / 2 ^ k"
    using power_int_diff [of "2::real" 53 "int k"]
    by (simp add: power_int_diff)
  have pos: "0 < x"
  proof (rule ccontr)
    assume "\<not> 0 < x"
    then have "x * 2 ^ k \<le> 0" by (simp add: mult_le_0_iff)
    with assms(1) show False by simp
  qed
  have lo: "2 powi (52 - int k) \<le> x" unfolding p using assms(1) by (simp add: field_simps)
  have hi: "x < 2 powi (52 - int k + 1)" unfolding p1 using assms(2) by (simp add: field_simps)
  have q: "(2::real) powi (52 - int k - 52) = 1 / 2 ^ k"
    by (simp add: power_int_minus field_simps)
  show ?thesis using double_of_pos [OF pos lo hi] unfolding q by simp
qed

lemma double_of_minus: "double_of (- x) = - double_of x"
  by (simp add: double_of_def ulp_def rne_minus)

lemma double_of_pos_bounds:
  assumes "0 < x"
  shows "2 powi expo x \<le> double_of x" "double_of x \<le> 2 powi (expo x + 1)"
proof -
  define q :: real where "q = 2 powi (expo x - 52)"
  have q: "0 < q" by (simp add: q_def)
  from expo_bounds [OF assms] have b: "2 powi expo x \<le> x" "x < 2 powi (expo x + 1)" by simp_all
  have e0: "(2::real) powi expo x = 2 ^ 52 * q"
    by (simp add: q_def power_int_diff)
  have e1: "(2::real) powi (expo x + 1) = 2 ^ 53 * q"
    by (simp add: q_def power_int_diff power_int_add)
  have d: "double_of x = of_int (rne (x / q)) * q"
    using assms by (simp add: double_of_def ulp_def q_def)
  from b(1) q have "of_int (2 ^ 52) \<le> x / q" unfolding e0 by (simp add: field_simps)
  then have "rne (of_int (2 ^ 52)) \<le> rne (x / q)" by (rule rne_mono)
  then have "2 ^ 52 \<le> rne (x / q)" by (simp only: rne_of_int)
  then have "(of_int (2 ^ 52) :: real) \<le> of_int (rne (x / q))" by (simp only: of_int_le_iff)
  then have "(2::real) ^ 52 \<le> of_int (rne (x / q))" by simp
  with q show "2 powi expo x \<le> double_of x" unfolding d e0 by simp
  from b(2) q have "x / q \<le> of_int (2 ^ 53)" unfolding e1 by (simp add: field_simps)
  then have "rne (x / q) \<le> rne (of_int (2 ^ 53))" by (rule rne_mono)
  then have "rne (x / q) \<le> 2 ^ 53" by (simp only: rne_of_int)
  then have "(of_int (rne (x / q)) :: real) \<le> of_int (2 ^ 53)" by (simp only: of_int_le_iff)
  then have "of_int (rne (x / q)) \<le> (2::real) ^ 53" by simp
  with q show "double_of x \<le> 2 powi (expo x + 1)" unfolding d e1 by simp
qed

lemma double_of_mono_pos:
  assumes "0 < x" "x \<le> y"
  shows "double_of x \<le> double_of y"
proof (cases "expo x = expo y")
  case True
  define q :: real where "q = 2 powi (expo y - 52)"
  have q: "0 < q" by (simp add: q_def)
  from assms q have "x / q \<le> y / q" by (simp add: divide_right_mono)
  then have "rne (x / q) \<le> rne (y / q)" by (rule rne_mono)
  then have "(of_int (rne (x / q)) :: real) \<le> of_int (rne (y / q))" by simp
  with q have "of_int (rne (x / q)) * q \<le> of_int (rne (y / q)) * q" by simp
  with assms True show ?thesis by (simp add: double_of_def ulp_def q_def)
next
  case False
  with expo_mono [OF assms] have "expo x + 1 \<le> expo y" by simp
  then have "(2::real) powi (expo x + 1) \<le> 2 powi expo y"
    by (intro power_int_increasing) simp_all
  moreover have "double_of x \<le> 2 powi (expo x + 1)"
    using assms(1) by (rule double_of_pos_bounds)
  moreover from assms have "0 < y" by simp
  then have "2 powi expo y \<le> double_of y" by (rule double_of_pos_bounds)
  ultimately show ?thesis by linarith
qed

lemma double_of_0: "double_of 0 = 0"
  by (simp add: double_of_def)

lemma double_of_nonneg: "0 \<le> x \<Longrightarrow> 0 \<le> double_of x"
proof (cases "x = 0")
  case True
  then show ?thesis by (simp add: double_of_def)
next
  case False
  assume "0 \<le> x"
  with False have x: "0 < x" by simp
  have "(0::real) \<le> 2 powi expo x" by simp
  also have "\<dots> \<le> double_of x" using x by (rule double_of_pos_bounds)
  finally show ?thesis .
qed

text \<open>Rounding to the nearest double is monotone.\<close>

lemma double_of_mono:
  assumes "x \<le> y"
  shows "double_of x \<le> double_of y"
proof -
  consider "0 < x" | "x \<le> 0" "0 \<le> y" | "y < 0" by linarith
  then show ?thesis
  proof cases
    case 1
    then show ?thesis using assms by (rule double_of_mono_pos)
  next
    case 2
    then have "0 \<le> double_of (- x)" "0 \<le> double_of y" by (simp_all add: double_of_nonneg)
    then show ?thesis by (simp add: double_of_minus)
  next
    case 3
    with assms have "0 < - y" "- y \<le> - x" by simp_all
    then have "double_of (- y) \<le> double_of (- x)" by (rule double_of_mono_pos)
    then show ?thesis by (simp add: double_of_minus)
  qed
qed

subsection \<open>The generator in floats\<close>

lemma random_unit_range: "0 \<le> random_unit r \<and> random_unit r < 1"
proof -
  have "r mod 2 ^ 53 < (2::nat) ^ 53" by simp
  then have "real (r mod 2 ^ 53) < real ((2::nat) ^ 53)" by (simp only: of_nat_less_iff)
  then show ?thesis by (simp add: random_unit_def)
qed

lemma uniform_range:
  assumes "0 \<le> fsub b a"
  shows "double_of a \<le> uniform a b r \<and> uniform a b r \<le> double_of (a + double_of (fsub b a))"
proof -
  define u where "u = random_unit r"
  define d where "d = fsub b a"
  have u: "0 \<le> u" "u < 1" using random_unit_range [of r] by (simp_all add: u_def)
  from assms have d: "0 \<le> d" by (simp add: d_def)
  from u d have "0 \<le> d * u" by simp
  then have lo: "0 \<le> fmul d u" unfolding fmul_def by (rule double_of_nonneg)
  from u d have "d * u \<le> d" by (simp add: mult_left_le)
  then have hi: "fmul d u \<le> double_of d" unfolding fmul_def by (rule double_of_mono)
  from lo have "a \<le> a + fmul d u" by simp
  then have 1: "double_of a \<le> fadd a (fmul d u)" unfolding fadd_def by (rule double_of_mono)
  from hi have "a + fmul d u \<le> a + double_of d" by simp
  then have 2: "fadd a (fmul d u) \<le> double_of (a + double_of d)"
    unfolding fadd_def by (rule double_of_mono)
  from 1 2 show ?thesis by (simp add: uniform_def u_def d_def)
qed

lemma double_85: "double_of (85 / 100) = 7656119366529843 / 2 ^ 53"
  by (subst double_of_scaled [where k = 53]) (simp_all add: rne_def)

lemma double_98: "double_of (98 / 100) = 8827055269646172 / 2 ^ 53"
  by (subst double_of_scaled [where k = 53]) (simp_all add: rne_def)

lemma double_85_idem: "double_of (7656119366529843 / 2 ^ 53) = 7656119366529843 / 2 ^ 53"
  by (subst double_of_scaled [where k = 53]) (simp_all add: rne_def)

lemma double_98_idem: "double_of (8827055269646172 / 2 ^ 53) = 8827055269646172 / 2 ^ 53"
  by (subst double_of_scaled [where k = 53]) (simp_all add: rne_def)

lemma width_85_98: "fsub (8827055269646172 / 2 ^ 53) (7656119366529843 / 2 ^ 53) = 1170935903116329 / 2 ^ 53"
  unfolding fsub_def
  by (subst double_of_scaled [where k = 55]) (simp_all add: rne_def)

lemma width_idem: "double_of (1170935903116329 / 2 ^ 53) = 1170935903116329 / 2 ^ 53"
  by (subst double_of_scaled [where k = 55]) (simp_all add: rne_def)

lemma confidence_range:
  "double_of (85 / 100) \<le> uniform (double_of (85 / 100)) (double_of (98 / 100)) r
   \<and> uniform (double_of (85 / 100)) (double_of (98 / 100)) r \<le> double_of (98 / 100)"
proof -
  define a :: real where "a = double_of (85 / 100)"
  define b :: real where "b = double_of (98 / 100)"
  have a: "a = 7656119366529843 / 2 ^ 53" unfolding a_def by (rule double_85)
  have b: "b = 8827055269646172 / 2 ^ 53" unfolding b_def by (rule double_98)
  have d: "fsub b a = 1170935903116329 / 2 ^ 53" unfolding a b by (rule width_85_98)
  have dd: "double_of (fsub b a) = fsub b a" unfolding d by (rule width_idem)
  have s: "a + fsub b a = b" unfolding d unfolding a b by simp
  have bb: "double_of b = b" unfolding b by (rule double_98_idem)
  have aa: "double_of a = a" unfolding a by (rule double_85_idem)
  have "0 \<le> fsub b a" unfolding d by simp
  then have "double_of a \<le> uniform a b r \<and> uniform a b r \<le> double_of (a + double_of (fsub b a))"
    by (rule uniform_range)
  then show ?thesis unfolding dd s bb aa unfolding a_def b_def .
qed

lemma confidence_at_top:
  "uniform (double_of (85 / 100)) (double_of (98 / 100)) (2 ^ 53 - 1) = double_of (98 / 100)"
proof -
  have u: "random_unit (2 ^ 53 - 1) = 9007199254740991 / 2 ^ 53"
    by (simp add: random_unit_def)
  have m: "fmul (1170935903116329 / 2 ^ 53) (9007199254740991 / 2 ^ 53) = 4683743612465315 / 2 ^ 55"
    unfolding fmul_def
    by (subst double_of_scaled [where k = 55]) (simp_all add: rne_def)
  have a: "fadd (7656119366529843 / 2 ^ 53) (4683743612465315 / 2 ^ 55) = 8827055269646172 / 2 ^ 53"
    unfolding fadd_def
    by (subst double_of_scaled [where k = 53]) (simp_all add: rne_def)
  show ?thesis
    unfolding uniform_def double_85 double_98 width_85_98 u m a ..
qed

subsection \<open>Startup\<close>

lemma advance_0: "advance w 0 0 = w"
  by (simp add: advance_def)

lemma advance_advance: "advance (advance w a b) c d = advance w (a + c) (b + d)"
  by (simp add: advance_def ac_simps)

lemma mock_worker_eq: "mock_worker i w = (worker_at w i, advance w 5 1)"
  by (simp add: mock_worker_def draw_def now_def worker_at_def advance_def Let_def eval_nat_numeral)

text \<open>
  The loop appends one worker per number, the \<open>k\<close>-th of them built from the five raw
  outputs and the one clock reading that follow those of its predecessors.
\<close>

lemma mock_workers_loop_eq:
  "mock_workers_loop is acc w =
     (acc @ map (\<lambda>k. worker_at (advance w (5 * k) k) (is ! k)) [0..<length is],
      advance w (5 * length is) (length is))"
proof (induction "is" arbitrary: acc w)
  case Nil
  then show ?case by (simp add: advance_0)
next
  case (Cons i rest)
  have m: "map (\<lambda>k. worker_at (advance w (5 * k) k) ((i # rest) ! k)) [0..<Suc (length rest)]
        = worker_at w i # map (\<lambda>k. worker_at (advance (advance w 5 1) (5 * k) k) (rest ! k)) [0..<length rest]"
    by (simp add: upt_conv_Cons map_Suc_upt [symmetric] advance_0 advance_advance del: upt_Suc)
  have a: "advance (advance w 5 1) (5 * length rest) (length rest)
        = advance w (5 * Suc (length rest)) (Suc (length rest))"
    by (simp add: advance_advance)
  have "mock_workers_loop (i # rest) acc w = mock_workers_loop rest (acc @ [worker_at w i]) (advance w 5 1)"
    by (simp add: mock_worker_eq)
  also have "\<dots> = ((acc @ [worker_at w i])
        @ map (\<lambda>k. worker_at (advance (advance w 5 1) (5 * k) k) (rest ! k)) [0..<length rest],
      advance (advance w 5 1) (5 * length rest) (length rest))"
    by (rule Cons.IH)
  also have "\<dots> = (acc @ map (\<lambda>k. worker_at (advance w (5 * k) k) ((i # rest) ! k)) [0..<length (i # rest)],
      advance w (5 * length (i # rest)) (length (i # rest)))"
    unfolding a by (simp only: m list.size append_Cons append_Nil append_assoc add_Suc_right add_0_right One_nat_def)
  finally show ?case .
qed

lemma generate_mock_workers_eq:
  "generate_mock_workers w =
     (map (\<lambda>k. worker_at (advance w (5 * k) k) (Suc k)) [0..<50], advance w 250 50)"
proof -
  have "map (\<lambda>k. worker_at (advance w (5 * k) k) ([1..<51] ! k)) [0..<50]
      = map (\<lambda>k. worker_at (advance w (5 * k) k) (Suc k)) [0..<50]"
    by (rule map_cong) simp_all
  then show ?thesis
    by (simp add: generate_mock_workers_def mock_workers_loop_eq)
qed

lemma startup_eq:
  "startup w =
     (\<lparr>plant_data =
         \<lparr>workers = map (\<lambda>k. worker_at (advance w (5 * k) k) (Suc k)) [0..<50],
          safety_violations = [], production_metrics = 0, schedules = generate_mock_schedules\<rparr>,
       heap = [baseline_metrics]\<rparr>, advance w 250 50)"
  by (simp add: startup_def generate_mock_workers_eq)

lemma startup_workers:
  "workers (plant_data (fst (startup w))) = map (\<lambda>k. worker_at (advance w (5 * k) k) (Suc k)) [0..<50]"
  by (simp add: startup_eq)

lemma startup_worker_nth:
  "k < 50 \<Longrightarrow> workers (plant_data (fst (startup w))) ! k = worker_at (advance w (5 * k) k) (Suc k)"
  by (simp add: startup_workers del: upt_Suc)

lemma str_int_first_last: "str_int 1001 = ''1001''" "str_int 1050 = ''1050''"
  by (simp_all add: str_int_def str_nat.simps digit_char_def)

lemma zones_statuses: "distinct zones" "length zones = 4" "distinct statuses" "length statuses = 4"
  by (simp_all add: zones_def statuses_def)

text \<open>
  C8. For every raw output of the generator and every reading of the clock, startup
  builds exactly 50 workers whose identifiers are \<open>W1001\<close>, ..., \<open>W1050\<close> in this order;
  each has an age between 22 and 60, a zone out of the four zones, a status out of the
  four statuses and a last training date that is the clock reading taken for this worker
  (the \<open>k\<close>-th reading for the \<open>k\<close>-th worker) moved between 1 and 90 days back. The
  schedules are the three fixed shifts, whatever the generator delivers.
\<close>

theorem startup_roster:
  "let ws = workers (plant_data (fst (startup w))) in
     length ws = 50
     \<and> map worker_id ws = map (\<lambda>i. ''W'' @ str_int (1000 + int i)) [1..<51]
     \<and> worker_id (ws ! 0) = ''W1001'' \<and> worker_id (ws ! 49) = ''W1050''
     \<and> (\<forall>k<50. 22 \<le> age (ws ! k) \<and> age (ws ! k) \<le> 60
            \<and> zone (ws ! k) \<in> set zones \<and> status (ws ! k) \<in> set statuses
            \<and> (\<exists>d. 1 \<le> d \<and> d \<le> 90
                  \<and> last_safety_training (ws ! k) = minus_days (clock_src w k) d))
     \<and> distinct zones \<and> length zones = 4 \<and> distinct statuses \<and> length statuses = 4
     \<and> schedules (plant_data (fst (startup w))) = generate_mock_schedules
     \<and> length generate_mock_schedules = 3"
proof -
  define ws where "ws = workers (plant_data (fst (startup w)))"
  have len: "length ws = 50" by (simp add: ws_def startup_workers)
  have nth: "ws ! k = worker_at (advance w (5 * k) k) (Suc k)" if "k < 50" for k
    unfolding ws_def using that by (rule startup_worker_nth)
  have ids: "map worker_id ws = map (\<lambda>i. ''W'' @ str_int (1000 + int i)) [1..<51]"
  proof (rule nth_equalityI)
    show "length (map worker_id ws) = length (map (\<lambda>i. ''W'' @ str_int (1000 + int i)) [1..<51])"
      by (simp add: len)
  next
    fix k assume "k < length (map worker_id ws)"
    then have k: "k < 50" by (simp add: len)
    then show "map worker_id ws ! k = map (\<lambda>i. ''W'' @ str_int (1000 + int i)) [1..<51] ! k"
      by (simp add: len nth worker_at_def del: upt_Suc)
  qed
  have first: "worker_id (ws ! 0) = ''W1001''"
    by (simp add: nth worker_at_def str_int_first_last)
  have lst: "worker_id (ws ! 49) = ''W1050''"
    by (simp add: nth worker_at_def str_int_first_last)
  have each: "22 \<le> age (ws ! k) \<and> age (ws ! k) \<le> 60
            \<and> zone (ws ! k) \<in> set zones \<and> status (ws ! k) \<in> set statuses
            \<and> (\<exists>d. 1 \<le> d \<and> d \<le> 90
                  \<and> last_safety_training (ws ! k) = minus_days (clock_src w k) d)" if "k < 50" for k
  proof -
    let ?w = "advance w (5 * k) k"
    have a: "22 \<le> randint 22 60 (rand_src ?w 0) \<and> randint 22 60 (rand_src ?w 0) \<le> 60"
      by (rule randint_bounds) simp
    have z: "choice zones (rand_src ?w 1) \<in> set zones"
      unfolding zones_def by (rule choice_in_set)
    have s: "choice statuses (rand_src ?w 2) \<in> set statuses"
      unfolding statuses_def by (rule choice_in_set)
    have d: "1 \<le> randint 1 90 (rand_src ?w 4) \<and> randint 1 90 (rand_src ?w 4) \<le> 90"
      by (rule randint_bounds) simp
    then have d': "1 \<le> nat (randint 1 90 (rand_src ?w 4)) \<and> nat (randint 1 90 (rand_src ?w 4)) \<le> 90"
      by linarith
    have c: "clock_src ?w 0 = clock_src w k" by (simp add: advance_def)
    have "last_safety_training (ws ! k) = minus_days (clock_src w k) (nat (randint 1 90 (rand_src ?w 4)))"
      by (simp add: nth that worker_at_def c)
    with d' have "\<exists>d. 1 \<le> d \<and> d \<le> 90 \<and> last_safety_training (ws ! k) = minus_days (clock_src w k) d"
      by blast
    with a z s show ?thesis by (simp add: nth that worker_at_def)
  qed
  have sch: "schedules (plant_data (fst (startup w))) = generate_mock_schedules"
    by (simp add: startup_eq)
  have three: "length generate_mock_schedules = 3"
    by (simp add: generate_mock_schedules_def)
  from len ids first lst each sch three zones_statuses show ?thesis
    unfolding Let_def ws_def [symmetric] by blast
qed

theorem startup_roster_witness:
  "(0::nat) < 50
   \<and> age (workers (plant_data (fst (startup sample_world))) ! 0) = 25
   \<and> 22 \<le> age (workers (plant_data (fst (startup sample_world))) ! 0)
   \<and> age (workers (plant_data (fst (startup sample_world))) ! 0) \<le> 60
   \<and> worker_id (workers (plant_data (fst (startup sample_world))) ! 0) = ''W1001''"
proof -
  have "age (workers (plant_data (fst (startup sample_world))) ! 0) = 25"
    by (simp add: startup_worker_nth worker_at_def advance_def sample_world_def randint_def)
  moreover from startup_roster [of sample_world]
  have "worker_id (workers (plant_data (fst (startup sample_world))) ! 0) = ''W1001''"
    and "\<forall>k<50. 22 \<le> age (workers (plant_data (fst (startup sample_world))) ! k)
           \<and> age (workers (plant_data (fst (startup sample_world))) ! k) \<le> 60"
    unfolding Let_def by blast+
  ultimately show ?thesis by simp
qed

text \<open>
  C10. Every one of the 50 workers built at startup has \<open>certification_valid = True\<close>,
  whatever the generator delivers.
\<close>

theorem certification_always_valid:
  "length (workers (plant_data (fst (startup w)))) = 50
   \<and> (\<forall>wk \<in> set (workers (plant_data (fst (startup w)))). certification_valid wk = True)"
  by (auto simp: startup_workers worker_at_def)

theorem certification_always_valid_witness:
  "workers (plant_data (fst (startup sample_world))) ! 7
     \<in> set (workers (plant_data (fst (startup sample_world))))
   \<and> certification_valid (workers (plant_data (fst (startup sample_world))) ! 7) = True"
proof -
  from certification_always_valid [of sample_world]
  have len: "length (workers (plant_data (fst (startup sample_world)))) = 50"
    and all: "\<forall>wk \<in> set (workers (plant_data (fst (startup sample_world)))). certification_valid wk = True"
    by blast+
  from len have "workers (plant_data (fst (startup sample_world))) ! 7
     \<in> set (workers (plant_data (fst (startup sample_world))))"
    by (intro nth_mem) simp
  with all show ?thesis by blast
qed

subsection \<open>The shift of the hour\<close>

text \<open>
  C6. The \<open>current_shift\<close> of the schedule response is a function of the hour \<open>h\<close> of
  the handler's first clock reading alone: the morning shift for \<open>h\<close> in \<open>[6, 14)\<close>, the
  afternoon shift for \<open>h\<close> in \<open>[14, 22)\<close>, the night shift for every other hour; so 6
  and 13 give the morning shift, 14 and 21 the afternoon shift, 22 and 5 the night shift.
\<close>

theorem schedule_current_shift:
  assumes "hour (clock_src w 0) = h" and "h < 24"
  shows "lookup_path (body_json (fst (get_current_schedule p w))) [''data'', ''current_shift'']
           = Some (PStr (current_shift h))
         \<and> (6 \<le> h \<and> h < 14 \<longrightarrow> current_shift h = ''Morning Shift'')
         \<and> (14 \<le> h \<and> h < 22 \<longrightarrow> current_shift h = ''Afternoon Shift'')
         \<and> (h < 6 \<or> 22 \<le> h \<longrightarrow> current_shift h = ''Night Shift'')
         \<and> current_shift 6 = ''Morning Shift'' \<and> current_shift 13 = ''Morning Shift''
         \<and> current_shift 14 = ''Afternoon Shift'' \<and> current_shift 21 = ''Afternoon Shift''
         \<and> current_shift 22 = ''Night Shift'' \<and> current_shift 5 = ''Night Shift''"
proof -
  have "lookup_path (body_json (fst (get_current_schedule p w))) [''data'', ''current_shift'']
          = Some (PStr (current_shift (hour (clock_src w 0))))"
    by (simp add: get_current_schedule_def now_def jsonify_def body_json_def split_def Let_def)
  then show ?thesis using assms by (auto simp: current_shift_def)
qed

theorem schedule_current_shift_witness:
  "hour (clock_src sample_world 0) = 13 \<and> (13::nat) < 24
   \<and> lookup_path (body_json (fst (get_current_schedule (fst (startup sample_world)) sample_world)))
        [''data'', ''current_shift'']
       = Some (PStr ''Morning Shift'')"
  using schedule_current_shift [of sample_world 13 "fst (startup sample_world)"]
  by (simp add: sample_world_def sample_time_def)

subsection \<open>Evaluating text\<close>

lemma replicate_numeral: "replicate (numeral k) x = x # replicate (pred_numeral k) x"
  by (simp add: numeral_eq_Suc)

lemmas text_eval = zero_pad_def str_nat.simps digit_char_def replicate_numeral

lemma isoformat_sample_time: "isoformat sample_time = ''2024-03-01T13:05:09.000250''"
  by (simp add: sample_time_def isoformat_def text_eval)

lemma length_str_nat: "0 < k \<Longrightarrow> n < 10 ^ k \<Longrightarrow> length (str_nat n) \<le> k"
proof (induction n arbitrary: k rule: str_nat.induct)
  case (1 n)
  show ?case
  proof (cases "n < 10")
    case True
    with 1(2) show ?thesis by (subst str_nat.simps) simp
  next
    case False
    with 1(3) have k: "1 < k" by (cases "k = 1") (use 1(2) in auto)
    then obtain j where j: "k = Suc j" "0 < j" by (cases k) auto
    from 1(3) j have "n div 10 < 10 ^ j" by (simp add: div_less_iff_less_mult mult.commute)
    with 1(1) False j have "length (str_nat (n div 10)) \<le> j" by simp
    with False j show ?thesis by (subst str_nat.simps) simp
  qed
qed

lemma length_zero_pad: "0 < k \<Longrightarrow> n < 10 ^ k \<Longrightarrow> length (zero_pad k n) = k"
  using length_str_nat [of k n] by (simp add: zero_pad_def)

text \<open>
  The shape of \<open>isoformat\<close> on a datetime that Python can hold: \<open>YYYY-MM-DDTHH:MM:SS\<close>,
  followed by a point and six digits when the microseconds are not zero.
\<close>

lemma isoformat_shape:
  assumes "valid_datetime t"
  shows "length (isoformat t) = (if microsecond t = 0 then 19 else 26)"
    and "isoformat t ! 4 = CHR ''-''" and "isoformat t ! 7 = CHR ''-''"
    and "isoformat t ! 10 = CHR ''T''"
    and "isoformat t ! 13 = CHR '':''" and "isoformat t ! 16 = CHR '':''"
    and "microsecond t \<noteq> 0 \<Longrightarrow> isoformat t ! 19 = CHR ''.''"
proof -
  from assms have "year t \<le> 9999" by (simp add: valid_datetime_def)
  then have "nat (year t) < 10000" by linarith
  then have "nat (year t) < 10 ^ 4" by simp
  then have y: "length (zero_pad 4 (nat (year t))) = 4"
    by (intro length_zero_pad) simp_all
  from assms have mo: "length (zero_pad 2 (month t)) = 2"
    by (intro length_zero_pad) (simp_all add: valid_datetime_def)
  from assms have d: "length (zero_pad 2 (day t)) = 2"
    by (intro length_zero_pad) (simp_all add: valid_datetime_def)
  from assms have h: "length (zero_pad 2 (hour t)) = 2"
    by (intro length_zero_pad) (simp_all add: valid_datetime_def)
  from assms have mi: "length (zero_pad 2 (minute t)) = 2"
    by (intro length_zero_pad) (simp_all add: valid_datetime_def)
  from assms have s: "length (zero_pad 2 (second t)) = 2"
    by (intro length_zero_pad) (simp_all add: valid_datetime_def)
  from assms have u: "length (zero_pad 6 (microsecond t)) = 6"
    by (intro length_zero_pad) (simp_all add: valid_datetime_def)
  show "length (isoformat t) = (if microsecond t = 0 then 19 else 26)"
    by (simp add: isoformat_def y mo d h mi s u)
  show "isoformat t ! 4 = CHR ''-''" "isoformat t ! 7 = CHR ''-''" "isoformat t ! 10 = CHR ''T''"
    "isoformat t ! 13 = CHR '':''" "isoformat t ! 16 = CHR '':''"
    by (simp_all add: isoformat_def nth_append y mo d h mi s u)
  show "isoformat t ! 19 = CHR ''.''" if "microsecond t \<noteq> 0"
    using that by (simp add: isoformat_def nth_append y mo d h mi s u)
qed

subsection \<open>The dispatcher\<close>

lemma fst_handle:
  "fst (handle p w GetIndex) = index w"
  "fst (handle p w GetHealth) = Inr (fst (health_check w))"
  "fst (handle p w GetOperationsMetrics) = Inr (fst (get_operations_metrics p w))"
  "fst (handle p w GetSafetyWorkers) = fst (get_worker_safety_status p w)"
  "fst (handle p w GetSafetyViolations) = Inr (fst (get_safety_violations w))"
  "fst (handle p w GetScheduleCurrent) = Inr (fst (get_current_schedule p w))"
  "fst (handle p w PostScheduleOptimize) = Inr (fst (optimize_schedule w))"
  "fst (handle p w GetComplianceStatus) = Inr (fst (get_compliance_status w))"
  "fst (handle p w (PostAiChat b)) = fst (ai_chat b w)"
  "fst (handle p w (PostReportsSafety b)) = fst (generate_safety_report b w)"
  "fst (handle p w (PostEmergencyStop b)) = fst (emergency_stop b w)"
  by (simp_all add: split_def Let_def)

lemma snd_handle:
  "snd (handle p w GetIndex) = (p, w)"
  "snd (handle p w GetHealth) = (p, snd (health_check w))"
  "snd (handle p w GetOperationsMetrics) = snd (get_operations_metrics p w)"
  "snd (handle p w GetSafetyWorkers) = (p, snd (get_worker_safety_status p w))"
  "snd (handle p w GetSafetyViolations) = (p, snd (get_safety_violations w))"
  "snd (handle p w GetScheduleCurrent) = (p, snd (get_current_schedule p w))"
  "snd (handle p w PostScheduleOptimize) = (p, snd (optimize_schedule w))"
  "snd (handle p w GetComplianceStatus) = (p, snd (get_compliance_status w))"
  "snd (handle p w (PostAiChat b)) = (p, snd (ai_chat b w))"
  "snd (handle p w (PostReportsSafety b)) = (p, snd (generate_safety_report b w))"
  "snd (handle p w (PostEmergencyStop b)) = (p, snd (emergency_stop b w))"
  by (simp_all add: split_def Let_def)

declare handle.simps [simp del]

subsection \<open>The root route\<close>

lemma handle_status_200:
  assumes "fst (handle p w rq) = Inr r" and "rq \<noteq> GetIndex"
  shows "status_code r = 200"
  using assms
  by (cases rq)
     (auto simp: fst_handle health_check_def get_operations_metrics_def get_worker_safety_status_def
        get_safety_violations_def get_current_schedule_def optimize_schedule_def
        get_compliance_status_def ai_chat_def generate_safety_report_def emergency_stop_def
        jsonify_def split_def Let_def split: sum.splits)

text \<open>
  C9, as the code has it. When \<open>open\<close> raises \<open>FileNotFoundError\<close> (the file or its
  directory does not exist) the root route answers with a JSON object holding an
  explanatory \<open>error\<close> message and the status 404; when the file can be opened and decoded
  it answers with the contents of the file. Every other failure of \<open>open\<close> or \<open>read\<close>
  is not caught: the handler raises and the request fails. No other response of the server
  has a status other than 200.
\<close>

theorem index_missing_asset:
  "(frontend_index w = Missing \<longrightarrow>
      fst (handle p w GetIndex) = Inr \<lparr>payload = Json (PDict
          [(''error'', PStr ''Frontend not found. Please ensure index.html exists in frontend folder'')]),
        status_code = 404\<rparr>)
   \<and> (frontend_index w = Readable contents \<longrightarrow>
      fst (handle p w GetIndex) = Inr \<lparr>payload = Text contents, status_code = 200\<rparr>)
   \<and> (frontend_index w = NotADirectory \<longrightarrow> fst (handle p w GetIndex) = Inl NotADirectoryError)
   \<and> (frontend_index w = IsADirectory \<longrightarrow> fst (handle p w GetIndex) = Inl IsADirectoryError)
   \<and> (frontend_index w = PermissionDenied \<longrightarrow> fst (handle p w GetIndex) = Inl PermissionError)
   \<and> (frontend_index w = Undecodable \<longrightarrow> fst (handle p w GetIndex) = Inl UnicodeDecodeError)
   \<and> (frontend_index w = OtherFailure \<longrightarrow> fst (handle p w GetIndex) = Inl OSError)
   \<and> (fst (handle p w rq) = Inr r \<and> status_code r \<noteq> 200 \<longrightarrow>
      rq = GetIndex \<and> frontend_index w = Missing)"
proof -
  have "rq = GetIndex \<and> frontend_index w = Missing"
    if h: "fst (handle p w rq) = Inr r" and s: "status_code r \<noteq> 200"
  proof -
    from h s handle_status_200 [of p w rq r] have rq: "rq = GetIndex" by blast
    with h s show ?thesis by (cases "frontend_index w") (auto simp: fst_handle index_def)
  qed
  then show ?thesis by (auto simp: fst_handle index_def)
qed

theorem index_missing_asset_witness:
  "frontend_index sample_world = Missing
   \<and> fst (handle (fst (startup sample_world)) sample_world GetIndex) = Inr \<lparr>payload = Json (PDict
          [(''error'', PStr ''Frontend not found. Please ensure index.html exists in frontend folder'')]),
        status_code = 404\<rparr>
   \<and> frontend_index (sample_world\<lparr>frontend_index := Readable ''<html></html>''\<rparr>)
        = Readable ''<html></html>''
   \<and> fst (handle (fst (startup sample_world))
          (sample_world\<lparr>frontend_index := Readable ''<html></html>''\<rparr>) GetIndex)
        = Inr \<lparr>payload = Text ''<html></html>'', status_code = 200\<rparr>"
  using index_missing_asset [of sample_world "fst (startup sample_world)" "[]" GetIndex "jsonify PNone"]
    index_missing_asset [of "sample_world\<lparr>frontend_index := Readable ''<html></html>''\<rparr>"
      "fst (startup sample_world)" "''<html></html>''" GetIndex "jsonify PNone"]
  by (simp add: sample_world_def)

text \<open>
  The claim C9 as stated fails on both sides. An asset that exists is not always returned:
  a file whose bytes are not UTF-8 makes \<open>read\<close> raise \<open>UnicodeDecodeError\<close>, and a
  directory at the path makes \<open>open\<close> raise \<open>IsADirectoryError\<close>. An asset that is
  absent does not always give the 404 answer: when \<open>frontend\<close> is a regular file,
  \<open>open\<close> raises \<open>NotADirectoryError\<close>. None of the three is a \<open>FileNotFoundError\<close>,
  so the handler raises.
\<close>

theorem index_asset_counterexample:
  "fst (handle (fst (startup sample_world)) (sample_world\<lparr>frontend_index := Undecodable\<rparr>) GetIndex)
     = Inl UnicodeDecodeError
   \<and> fst (handle (fst (startup sample_world)) (sample_world\<lparr>frontend_index := IsADirectory\<rparr>) GetIndex)
     = Inl IsADirectoryError
   \<and> fst (handle (fst (startup sample_world)) (sample_world\<lparr>frontend_index := NotADirectory\<rparr>) GetIndex)
     = Inl NotADirectoryError"
  by (simp add: fst_handle index_def)

subsection \<open>The bodies of the POST requests\<close>

lemma request_json_object: "request_json w (JsonDoc (PDict items)) = Inr (PDict items)"
  by (simp add: request_json_def)

lemma request_json_fails:
  "b = NoJson \<or> b = BadJson \<Longrightarrow>
     (\<exists>e. request_json w b = Inl e) \<or> request_json w b = Inr PNone"
  by (auto simp: request_json_def)

lemma no_document_fails:
  assumes "b = NoJson \<or> b = BadJson"
  shows "\<exists>e. fst (ai_chat b w) = Inl e"
    and "\<exists>e. fst (generate_safety_report b w) = Inl e"
    and "\<exists>e. fst (emergency_stop b w) = Inl e"
  using assms
  by (auto simp: ai_chat_def generate_safety_report_def emergency_stop_def request_json_def
        now_def split_def Let_def)

text \<open>
  C4, as the code has it. A POST request whose body is a JSON object succeeds, and a field
  that the object lacks is replaced by its default: \<open>message\<close> by the empty string,
  \<open>period\<close> by \<open>daily\<close>, \<open>user_id\<close> by \<open>system\<close>, \<open>reason\<close> by
  \<open>Manual emergency stop\<close>. A request without a JSON document, or with one that does
  not parse, makes \<open>request.json\<close> raise (or yield \<open>None\<close>, which has no \<open>get\<close>): the
  handler raises and the request fails.
\<close>

theorem post_defaults_for_json_objects:
  "(\<exists>r. fst (handle p w (PostAiChat (JsonDoc (PDict items)))) = Inr r
        \<and> lookup_path (body_json r) [''data'', ''user_message'']
            = Some (case map_of items ''message'' of None \<Rightarrow> PStr [] | Some v \<Rightarrow> v))
   \<and> (\<exists>r. fst (handle p w (PostReportsSafety (JsonDoc (PDict items)))) = Inr r
        \<and> lookup_path (body_json r) [''data'', ''period'']
            = Some (case map_of items ''period'' of None \<Rightarrow> PStr ''daily'' | Some v \<Rightarrow> v))
   \<and> (\<exists>r. fst (handle p w (PostEmergencyStop (JsonDoc (PDict items)))) = Inr r
        \<and> lookup_path (body_json r) [''data'', ''initiated_by'']
            = Some (case map_of items ''user_id'' of None \<Rightarrow> PStr ''system'' | Some v \<Rightarrow> v)
        \<and> lookup_path (body_json r) [''data'', ''reason'']
            = Some (case map_of items ''reason'' of None \<Rightarrow> PStr ''Manual emergency stop'' | Some v \<Rightarrow> v))
   \<and> (b = NoJson \<or> b = BadJson \<longrightarrow>
        (\<exists>e. fst (handle p w (PostAiChat b)) = Inl e)
        \<and> (\<exists>e. fst (handle p w (PostReportsSafety b)) = Inl e)
        \<and> (\<exists>e. fst (handle p w (PostEmergencyStop b)) = Inl e))"
proof -
  have chat: "\<exists>r. fst (handle p w (PostAiChat (JsonDoc (PDict items)))) = Inr r
        \<and> lookup_path (body_json r) [''data'', ''user_message'']
            = Some (case map_of items ''message'' of None \<Rightarrow> PStr [] | Some v \<Rightarrow> v)"
    by (simp add: fst_handle ai_chat_def request_json_object jsonify_def body_json_def split_def Let_def)
  have report: "\<exists>r. fst (handle p w (PostReportsSafety (JsonDoc (PDict items)))) = Inr r
        \<and> lookup_path (body_json r) [''data'', ''period'']
            = Some (case map_of items ''period'' of None \<Rightarrow> PStr ''daily'' | Some v \<Rightarrow> v)"
    by (simp add: fst_handle generate_safety_report_def request_json_object jsonify_def
          body_json_def split_def Let_def)
  have stop: "\<exists>r. fst (handle p w (PostEmergencyStop (JsonDoc (PDict items)))) = Inr r
        \<and> lookup_path (body_json r) [''data'', ''initiated_by'']
            = Some (case map_of items ''user_id'' of None \<Rightarrow> PStr ''system'' | Some v \<Rightarrow> v)
        \<and> lookup_path (body_json r) [''data'', ''reason'']
            = Some (case map_of items ''reason'' of None \<Rightarrow> PStr ''Manual emergency stop'' | Some v \<Rightarrow> v)"
    by (simp add: fst_handle emergency_stop_def request_json_object jsonify_def body_json_def
          split_def Let_def)
  have fails: "(\<exists>e. fst (handle p w (PostAiChat b)) = Inl e)
        \<and> (\<exists>e. fst (handle p w (PostReportsSafety b)) = Inl e)
        \<and> (\<exists>e. fst (handle p w (PostEmergencyStop b)) = Inl e)" if "b = NoJson \<or> b = BadJson"
    using no_document_fails [OF that, of w] by (simp add: fst_handle)
  from chat report stop fails show ?thesis by blast
qed

theorem post_defaults_for_json_objects_witness:
  "(\<exists>r. fst (handle (fst (startup sample_world)) sample_world (PostEmergencyStop (JsonDoc (PDict
            [(''reason'', PStr ''kiln overheating'')])))) = Inr r
        \<and> lookup_path (body_json r) [''data'', ''initiated_by''] = Some (PStr ''system'')
        \<and> lookup_path (body_json r) [''data'', ''reason''] = Some (PStr ''kiln overheating''))
   \<and> (\<exists>e. fst (handle (fst (startup sample_world)) sample_world (PostAiChat BadJson)) = Inl e)"
  using post_defaults_for_json_objects
    [of "fst (startup sample_world)" sample_world "[(''reason'', PStr ''kiln overheating'')]" BadJson]
  by simp

text \<open>
  The claim C4 as stated fails: with a body that is not parseable JSON the three handlers
  raise 400, and with no JSON document they raise 415 (an \<open>AttributeError\<close> on a Flask
  before 2.1); no default is substituted.
\<close>

theorem post_without_json_counterexample:
  "fst (handle (fst (startup sample_world)) sample_world (PostAiChat BadJson)) = Inl BadRequest
   \<and> fst (handle (fst (startup sample_world)) sample_world (PostAiChat NoJson)) = Inl UnsupportedMediaType
   \<and> fst (handle (fst (startup sample_world)) (sample_world\<lparr>json_415 := False\<rparr>) (PostAiChat NoJson))
       = Inl AttributeError
   \<and> fst (handle (fst (startup sample_world)) sample_world (PostReportsSafety BadJson)) = Inl BadRequest
   \<and> fst (handle (fst (startup sample_world)) sample_world (PostEmergencyStop NoJson))
       = Inl UnsupportedMediaType"
  by (simp add: fst_handle ai_chat_def generate_safety_report_def emergency_stop_def
        request_json_def now_def split_def Let_def sample_world_def)

subsection \<open>The shape of the responses\<close>

lemma stampedI:
  "dict_item (body_json r) ''timestamp'' = Some (PStr (isoformat (clock_src w n)))
   \<Longrightarrow> clock_src w' = (\<lambda>k. clock_src w (k + (n + 1))) \<Longrightarrow> stamped w r w' n"
  unfolding stamped_def by simp

lemma stamped_health: "stamped w (fst (health_check w)) (snd (health_check w)) 0"
  by (rule stampedI [where n = 0])
     (simp_all add: health_check_def now_def jsonify_def body_json_def split_def)

lemma stamped_metrics:
  "stamped w (fst (get_operations_metrics p w)) (snd (snd (get_operations_metrics p w))) 0"
  by (rule stampedI [where n = 0])
     (simp_all add: get_operations_metrics_def now_def draw_def jsonify_def body_json_def
        split_def Let_def)

lemma stamped_workers:
  "fst (get_worker_safety_status p w) = Inr r \<Longrightarrow> stamped w r (snd (get_worker_safety_status p w)) 0"
  by (rule stampedI [where n = 0])
     (auto simp: get_worker_safety_status_def now_def jsonify_def body_json_def
        split_def Let_def split: sum.splits)

lemma stamped_violations: "stamped w (fst (get_safety_violations w)) (snd (get_safety_violations w)) 2"
  by (rule stampedI [where n = 2])
     (simp_all add: get_safety_violations_def now_def jsonify_def body_json_def split_def Let_def
        eval_nat_numeral)

lemma stamped_schedule:
  "stamped w (fst (get_current_schedule p w)) (snd (get_current_schedule p w)) 2"
  by (rule stampedI [where n = 2])
     (simp_all add: get_current_schedule_def now_def jsonify_def body_json_def split_def Let_def
        eval_nat_numeral)

lemma stamped_optimize: "stamped w (fst (optimize_schedule w)) (snd (optimize_schedule w)) 0"
  by (rule stampedI [where n = 0])
     (simp_all add: optimize_schedule_def now_def draw_def jsonify_def body_json_def split_def Let_def)

lemma stamped_compliance:
  "stamped w (fst (get_compliance_status w)) (snd (get_compliance_status w)) 0"
  by (rule stampedI [where n = 0])
     (simp_all add: get_compliance_status_def now_def jsonify_def body_json_def split_def Let_def)

lemma stamped_chat: "fst (ai_chat b w) = Inr r \<Longrightarrow> stamped w r (snd (ai_chat b w)) 0"
  by (rule stampedI [where n = 0])
     (auto simp: ai_chat_def now_def draw_def jsonify_def body_json_def
        split_def Let_def split: sum.splits)

lemma stamped_stop: "fst (emergency_stop b w) = Inr r \<Longrightarrow> stamped w r (snd (emergency_stop b w)) 1"
  by (rule stampedI [where n = 1])
     (auto simp: emergency_stop_def now_def jsonify_def body_json_def
        split_def Let_def split: sum.splits)

lemma shape_health:
  "(\<exists>items. body_json (fst (health_check w)) = PDict items)
   \<and> has_key (body_json (fst (health_check w))) ''status''"
  by (simp add: health_check_def jsonify_def body_json_def split_def Let_def)

lemma shape_metrics:
  "(\<exists>items. body_json (fst (get_operations_metrics p w)) = PDict items)
   \<and> has_key (body_json (fst (get_operations_metrics p w))) ''status''
   \<and> has_key (body_json (fst (get_operations_metrics p w))) ''data''"
  by (simp add: get_operations_metrics_def jsonify_def body_json_def split_def Let_def)

lemma shape_workers:
  "fst (get_worker_safety_status p w) = Inr r \<Longrightarrow>
   (\<exists>items. body_json r = PDict items)
   \<and> has_key (body_json r) ''status'' \<and> has_key (body_json r) ''data''"
  by (auto simp: get_worker_safety_status_def jsonify_def body_json_def split_def Let_def
        split: sum.splits)

lemma shape_violations:
  "(\<exists>items. body_json (fst (get_safety_violations w)) = PDict items)
   \<and> has_key (body_json (fst (get_safety_violations w))) ''status''
   \<and> has_key (body_json (fst (get_safety_violations w))) ''data''"
  by (simp add: get_safety_violations_def jsonify_def body_json_def split_def Let_def)

lemma shape_schedule:
  "(\<exists>items. body_json (fst (get_current_schedule p w)) = PDict items)
   \<and> has_key (body_json (fst (get_current_schedule p w))) ''status''
   \<and> has_key (body_json (fst (get_current_schedule p w))) ''data''"
  by (simp add: get_current_schedule_def jsonify_def body_json_def split_def Let_def)

lemma shape_optimize:
  "(\<exists>items. body_json (fst (optimize_schedule w)) = PDict items)
   \<and> has_key (body_json (fst (optimize_schedule w))) ''status''
   \<and> has_key (body_json (fst (optimize_schedule w))) ''data''"
  by (simp add: optimize_schedule_def jsonify_def body_json_def split_def Let_def)

lemma shape_compliance:
  "(\<exists>items. body_json (fst (get_compliance_status w)) = PDict items)
   \<and> has_key (body_json (fst (get_compliance_status w))) ''status''
   \<and> has_key (body_json (fst (get_compliance_status w))) ''data''"
  by (simp add: get_compliance_status_def jsonify_def body_json_def split_def Let_def)

lemma shape_chat:
  "fst (ai_chat b w) = Inr r \<Longrightarrow>
   (\<exists>items. body_json r = PDict items)
   \<and> has_key (body_json r) ''status'' \<and> has_key (body_json r) ''data''"
  by (auto simp: ai_chat_def jsonify_def body_json_def split_def Let_def split: sum.splits)

lemma shape_report:
  "fst (generate_safety_report b w) = Inr r \<Longrightarrow>
   (\<exists>items. body_json r = PDict items)
   \<and> has_key (body_json r) ''status'' \<and> has_key (body_json r) ''data''"
  by (auto simp: generate_safety_report_def jsonify_def body_json_def split_def Let_def
        split: sum.splits)

lemma shape_stop:
  "fst (emergency_stop b w) = Inr r \<Longrightarrow>
   (\<exists>items. body_json r = PDict items)
   \<and> has_key (body_json r) ''status'' \<and> has_key (body_json r) ''data''"
  by (auto simp: emergency_stop_def jsonify_def body_json_def split_def Let_def
        split: sum.splits)

text \<open>
  C5, as the code has it. Every response of an API route is a JSON object with a top-level
  \<open>status\<close>; every route but the health check adds a top-level \<open>data\<close>; every route
  but the safety report adds a top-level \<open>timestamp\<close>, the ISO format of the last clock
  reading of the handler.
\<close>

theorem api_response_shape:
  assumes "rq \<noteq> GetIndex" and "fst (handle p w rq) = Inr r"
  shows "(\<exists>items. body_json r = PDict items)
         \<and> has_key (body_json r) ''status''
         \<and> (rq \<noteq> GetHealth \<longrightarrow> has_key (body_json r) ''data'')
         \<and> ((\<forall>b. rq \<noteq> PostReportsSafety b) \<longrightarrow>
              stamped w r (snd (snd (handle p w rq))) (readings_before_stamp rq))"
proof (cases rq)
  case GetIndex
  with assms(1) show ?thesis by simp
next
  case GetHealth
  with assms(2) have r: "r = fst (health_check w)" by (simp add: fst_handle)
  from shape_health [of w] stamped_health [of w] show ?thesis
    unfolding GetHealth snd_handle r by simp
next
  case GetOperationsMetrics
  with assms(2) have r: "r = fst (get_operations_metrics p w)" by (simp add: fst_handle)
  from shape_metrics [of p w] stamped_metrics [of w p] show ?thesis
    unfolding GetOperationsMetrics snd_handle r by simp
next
  case GetSafetyWorkers
  with assms(2) have r: "fst (get_worker_safety_status p w) = Inr r" by (simp add: fst_handle)
  from shape_workers [OF r] stamped_workers [OF r] show ?thesis
    unfolding GetSafetyWorkers snd_handle by simp
next
  case GetSafetyViolations
  with assms(2) have r: "r = fst (get_safety_violations w)" by (simp add: fst_handle)
  from shape_violations [of w] stamped_violations [of w] show ?thesis
    unfolding GetSafetyViolations snd_handle r by simp
next
  case GetScheduleCurrent
  with assms(2) have r: "r = fst (get_current_schedule p w)" by (simp add: fst_handle)
  from shape_schedule [of p w] stamped_schedule [of w p] show ?thesis
    unfolding GetScheduleCurrent snd_handle r by simp
next
  case PostScheduleOptimize
  with assms(2) have r: "r = fst (optimize_schedule w)" by (simp add: fst_handle)
  from shape_optimize [of w] stamped_optimize [of w] show ?thesis
    unfolding PostScheduleOptimize snd_handle r by simp
next
  case GetComplianceStatus
  with assms(2) have r: "r = fst (get_compliance_status w)" by (simp add: fst_handle)
  from shape_compliance [of w] stamped_compliance [of w] show ?thesis
    unfolding GetComplianceStatus snd_handle r by simp
next
  case (PostAiChat b)
  with assms(2) have r: "fst (ai_chat b w) = Inr r" by (simp add: fst_handle)
  from shape_chat [OF r] stamped_chat [OF r] show ?thesis
    unfolding PostAiChat snd_handle by simp
next
  case (PostReportsSafety b)
  with assms(2) have r: "fst (generate_safety_report b w) = Inr r" by (simp add: fst_handle)
  from shape_report [OF r] show ?thesis
    unfolding PostReportsSafety by simp
next
  case (PostEmergencyStop b)
  with assms(2) have r: "fst (emergency_stop b w) = Inr r" by (simp add: fst_handle)
  from shape_stop [OF r] stamped_stop [OF r] show ?thesis
    unfolding PostEmergencyStop snd_handle by simp
qed

theorem api_response_shape_witness:
  "\<exists>r. GetScheduleCurrent \<noteq> GetIndex
     \<and> fst (handle (fst (startup sample_world)) sample_world GetScheduleCurrent) = Inr r
     \<and> has_key (body_json r) ''status''
     \<and> has_key (body_json r) ''data''
     \<and> stamped sample_world r
          (snd (snd (handle (fst (startup sample_world)) sample_world GetScheduleCurrent))) 2
     \<and> dict_item (body_json r) ''timestamp'' = Some (PStr ''2024-03-01T13:05:09.000250'')"
proof -
  define r where "r = fst (get_current_schedule (fst (startup sample_world)) sample_world)"
  have ne: "GetScheduleCurrent \<noteq> GetIndex" by simp
  have h: "fst (handle (fst (startup sample_world)) sample_world GetScheduleCurrent) = Inr r"
    by (simp add: fst_handle r_def)
  have t: "dict_item (body_json r) ''timestamp'' = Some (PStr ''2024-03-01T13:05:09.000250'')"
    unfolding r_def isoformat_sample_time [symmetric]
    by (simp add: get_current_schedule_def now_def jsonify_def body_json_def split_def Let_def
          sample_world_def)
  from api_response_shape [OF ne h]
  have "has_key (body_json r) ''status'' \<and> has_key (body_json r) ''data''
      \<and> stamped sample_world r
          (snd (snd (handle (fst (startup sample_world)) sample_world GetScheduleCurrent))) 2"
    by simp
  with h t ne show ?thesis by blast
qed

text \<open>
  The claim C5 as stated fails: the response of the health check has no \<open>data\<close>, and the
  response of the safety report has no top-level \<open>timestamp\<close>.
\<close>

theorem api_response_shape_counterexample:
  "fst (handle (fst (startup sample_world)) sample_world GetHealth)
       = Inr (fst (health_check sample_world))
   \<and> \<not> has_key (body_json (fst (health_check sample_world))) ''data''
   \<and> (\<exists>r. fst (handle (fst (startup sample_world)) sample_world (PostReportsSafety (JsonDoc (PDict []))))
          = Inr r \<and> \<not> has_key (body_json r) ''timestamp'')"
  by (simp add: fst_handle health_check_def generate_safety_report_def request_json_def
        now_def draw_def jsonify_def body_json_def split_def Let_def)

subsection \<open>The worker-safety route\<close>

lemma double_of_1: "double_of 1 = 1"
  by (subst double_of_scaled [where k = 52]) (simp_all add: rne_def)

lemma double_of_100: "double_of 100 = 100"
  by (subst double_of_scaled [where k = 46]) (simp_all add: rne_def)

lemma rne_0: "rne 0 = 0"
  using rne_of_int [of 0] by simp

lemma rne_1000: "rne 1000 = 1000"
  using rne_of_int [of 1000] by simp

lemma round1_range:
  assumes "0 \<le> x" "x \<le> 100"
  shows "0 \<le> round1 x \<and> round1 x \<le> 100"
proof -
  from assms have "rne 0 \<le> rne (x * 10)" "rne (x * 10) \<le> rne 1000"
    by (auto intro: rne_mono)
  then have "0 \<le> rne (x * 10)" "rne (x * 10) \<le> 1000"
    by (simp_all add: rne_0 rne_1000)
  then have "(0::real) \<le> of_int (rne (x * 10)) / 10" "of_int (rne (x * 10)) / 10 \<le> (100::real)"
    by simp_all
  then have "double_of 0 \<le> round1 x" "round1 x \<le> double_of 100"
    unfolding round1_def by (auto intro: double_of_mono)
  then show ?thesis by (simp add: double_of_0 double_of_100)
qed

lemma percentage_range:
  assumes "0 \<le> k" "k \<le> n" "0 < n"
  shows "0 \<le> round1 (fmul (double_of (of_int k / of_int n)) 100)
         \<and> round1 (fmul (double_of (of_int k / of_int n)) 100) \<le> 100"
proof -
  define q where "q = double_of (of_int k / of_int n)"
  from assms have "(0::real) \<le> of_int k / of_int n" "of_int k / of_int n \<le> (1::real)"
    by simp_all
  then have "double_of 0 \<le> q" "q \<le> double_of 1"
    unfolding q_def by (auto intro: double_of_mono)
  then have q: "0 \<le> q" "q \<le> 1" by (simp_all add: double_of_0 double_of_1)
  then have "0 \<le> q * 100" "q * 100 \<le> 100" by simp_all
  then have "double_of 0 \<le> fmul q 100" "fmul q 100 \<le> double_of 100"
    unfolding fmul_def by (auto intro: double_of_mono)
  then have "0 \<le> fmul q 100" "fmul q 100 \<le> 100"
    by (simp_all add: double_of_0 double_of_100)
  then show ?thesis unfolding q_def [symmetric] by (rule round1_range)
qed

text \<open>The response of the worker-safety route on a roster that is not empty.\<close>

lemma worker_safety_response:
  assumes "workers (plant_data p) \<noteq> []"
  shows "get_worker_safety_status p w =
     (Inr (jsonify (PDict
        [(''status'', PStr ''success''),
         (''data'', PDict
            [(''workers'', PList (map worker_json (take 10 (workers (plant_data p))))),
             (''statistics'', PDict
                [(''total_workers'', PInt (int (length (workers (plant_data p))))),
                 (''safe_workers'',
                    PInt (int (length (filter (\<lambda>wk. status wk = ''Safe'') (workers (plant_data p)))))),
                 (''ppe_compliance_rate'', PFloat (round1 (fmul (double_of
                    (of_int (int (length (filter ppe_compliance (workers (plant_data p)))))
                      / of_int (int (length (workers (plant_data p)))))) 100))),
                 (''violations_today'', PInt (int (length (filter
                    (\<lambda>wk. status wk = ''PPE Missing'' \<or> status wk = ''Training Required'')
                    (workers (plant_data p)))))),
                 (''safety_score'', PFloat (round1 (fmul (double_of
                    (of_int (int (length (filter (\<lambda>wk. status wk = ''Safe'') (workers (plant_data p)))))
                      / of_int (int (length (workers (plant_data p)))))) 100)))])]),
         (''timestamp'', PStr (isoformat (clock_src w 0)))])),
      snd (now w))"
  using assms
  by (simp add: get_worker_safety_status_def int_truediv_def now_def Let_def)

text \<open>
  The worker-safety response on any roster of at least 10 workers: exactly 10 records, the
  first 10 of the roster, and statistics computed over the whole roster.
\<close>

lemma worker_safety_on_large_roster:
  assumes "10 \<le> length (workers (plant_data p))"
  shows "\<exists>r. fst (handle p w GetSafetyWorkers) = Inr r
     \<and> lookup_path (body_json r) [''data'', ''workers'']
         = Some (PList (map worker_json (take 10 (workers (plant_data p)))))
     \<and> length (map worker_json (take 10 (workers (plant_data p)))) = 10
     \<and> lookup_path (body_json r) [''data'', ''statistics'', ''total_workers'']
         = Some (PInt (int (length (workers (plant_data p)))))
     \<and> lookup_path (body_json r) [''data'', ''statistics'', ''safe_workers'']
         = Some (PInt (int (length (filter (\<lambda>wk. status wk = ''Safe'') (workers (plant_data p))))))
     \<and> lookup_path (body_json r) [''data'', ''statistics'', ''violations_today'']
         = Some (PInt (int (length (filter
              (\<lambda>wk. status wk = ''PPE Missing'' \<or> status wk = ''Training Required'')
              (workers (plant_data p))))))
     \<and> (\<exists>rate. lookup_path (body_json r) [''data'', ''statistics'', ''ppe_compliance_rate'']
            = Some (PFloat rate)
          \<and> rate = round1 (fmul (double_of
                (of_int (int (length (filter ppe_compliance (workers (plant_data p)))))
                  / of_int (int (length (workers (plant_data p)))))) 100)
          \<and> 0 \<le> rate \<and> rate \<le> 100)
     \<and> (\<exists>score. lookup_path (body_json r) [''data'', ''statistics'', ''safety_score'']
            = Some (PFloat score)
          \<and> score = round1 (fmul (double_of
                (of_int (int (length (filter (\<lambda>wk. status wk = ''Safe'') (workers (plant_data p)))))
                  / of_int (int (length (workers (plant_data p)))))) 100)
          \<and> 0 \<le> score \<and> score \<le> 100)
     \<and> length (workers (plant_data (fst (startup w0)))) = 50"
proof -
  let ?ws = "workers (plant_data p)"
  from assms have ne: "?ws \<noteq> []" by auto
  have n: "0 < int (length ?ws)" using ne by simp
  have ppe: "0 \<le> round1 (fmul (double_of
                (of_int (int (length (filter ppe_compliance ?ws))) / of_int (int (length ?ws)))) 100)
       \<and> round1 (fmul (double_of
                (of_int (int (length (filter ppe_compliance ?ws))) / of_int (int (length ?ws)))) 100) \<le> 100"
    by (rule percentage_range) (simp_all add: ne)
  have safe: "0 \<le> round1 (fmul (double_of
                (of_int (int (length (filter (\<lambda>wk. status wk = ''Safe'') ?ws))) / of_int (int (length ?ws)))) 100)
       \<and> round1 (fmul (double_of
                (of_int (int (length (filter (\<lambda>wk. status wk = ''Safe'') ?ws))) / of_int (int (length ?ws)))) 100) \<le> 100"
    by (rule percentage_range) (simp_all add: ne)
  from assms have ten: "length (map worker_json (take 10 ?ws)) = 10" by simp
  have fifty: "length (workers (plant_data (fst (startup w0)))) = 50"
    by (simp add: startup_workers)
  show ?thesis
    unfolding fst_handle worker_safety_response [OF ne] fst_conv
    using ppe safe ten fifty
    by (simp add: jsonify_def body_json_def)
qed

subsection \<open>No handler writes the shared state\<close>

lemma double_of_2: "double_of 2 = 2"
  by (subst double_of_scaled [where k = 51]) (simp_all add: rne_def)

lemma double_of_4: "double_of 4 = 4"
  by (subst double_of_scaled [where k = 50]) (simp_all add: rne_def)

lemma efficiency_delta_range: "- 2 \<le> uniform (- 2) 2 r \<and> uniform (- 2) 2 r \<le> 2"
proof -
  have d: "fsub 2 (- 2) = 4" by (simp add: fsub_def double_of_4)
  have "0 \<le> fsub 2 (- 2)" unfolding d by simp
  then have "double_of (- 2) \<le> uniform (- 2) 2 r
      \<and> uniform (- 2) 2 r \<le> double_of (- 2 + double_of (fsub 2 (- 2)))"
    by (rule uniform_range)
  then show ?thesis unfolding d by (simp add: double_of_4 double_of_2 double_of_minus)
qed

text \<open>The response of the metrics route, the process and the world it leaves.\<close>

lemma metrics_response:
  "get_operations_metrics p w =
     (jsonify (PDict
        [(''status'', PStr ''success''),
         (''data'', metrics_json (perturbed (heap p ! production_metrics (plant_data p)) w)),
         (''timestamp'', PStr (isoformat (clock_src w 0)))]),
      p\<lparr>heap := heap p @ [perturbed (heap p ! production_metrics (plant_data p)) w]\<rparr>,
      advance w 3 1)"
  by (simp add: get_operations_metrics_def draw_def now_def perturbed_def advance_def Let_def
        eval_nat_numeral)

lemma handle_process:
  "fst (snd (handle p w rq)) =
     (if rq = GetOperationsMetrics
      then p\<lparr>heap := heap p @ [perturbed (heap p ! production_metrics (plant_data p)) w]\<rparr>
      else p)"
  by (cases rq) (simp_all add: snd_handle metrics_response)

text \<open>
  The frame of one request: the store is the same object with the same fields, and every
  dict that was on the heap is still there, unchanged; the heap only grows.
\<close>

lemma handle_frame:
  "plant_data (fst (snd (handle p w rq))) = plant_data p
   \<and> (\<exists>new. heap (fst (snd (handle p w rq))) = heap p @ new)"
  by (simp add: handle_process)

lemma run_frame:
  "plant_data (fst (snd (run p w rqs))) = plant_data p
   \<and> (\<exists>new. heap (fst (snd (run p w rqs))) = heap p @ new)"
proof (induction rqs arbitrary: p w)
  case Nil
  then show ?case by simp
next
  case (Cons rq rqs)
  define p1 where "p1 = fst (snd (handle p w rq))"
  define w1 where "w1 = snd (snd (handle p w rq))"
  have r: "fst (snd (run p w (rq # rqs))) = fst (snd (run p1 w1 rqs))"
    by (simp add: p1_def w1_def split_def Let_def)
  from handle_frame [of p w rq] obtain new1
    where 1: "plant_data p1 = plant_data p" "heap p1 = heap p @ new1"
    unfolding p1_def by blast
  from Cons.IH [of p1 w1] obtain new2
    where 2: "plant_data (fst (snd (run p1 w1 rqs))) = plant_data p1"
      "heap (fst (snd (run p1 w1 rqs))) = heap p1 @ new2"
    by blast
  from 1 2 have "plant_data (fst (snd (run p1 w1 rqs))) = plant_data p"
    and "heap (fst (snd (run p1 w1 rqs))) = heap p @ (new1 @ new2)"
    by simp_all
  then show ?case unfolding r by blast
qed

lemma run_baseline:
  assumes "well_formed p"
  shows "heap (fst (snd (run p w rqs))) ! production_metrics (plant_data (fst (snd (run p w rqs))))
         = heap p ! production_metrics (plant_data p)"
    and "well_formed (fst (snd (run p w rqs)))"
proof -
  from run_frame [of p w rqs] obtain new
    where f: "plant_data (fst (snd (run p w rqs))) = plant_data p"
      "heap (fst (snd (run p w rqs))) = heap p @ new"
    by blast
  from assms have a: "production_metrics (plant_data p) < length (heap p)"
    by (simp add: well_formed_def)
  then show "heap (fst (snd (run p w rqs))) ! production_metrics (plant_data (fst (snd (run p w rqs))))
         = heap p ! production_metrics (plant_data p)"
    unfolding f by (simp add: nth_append)
  from a show "well_formed (fst (snd (run p w rqs)))"
    unfolding well_formed_def f by simp
qed

lemma startup_well_formed: "well_formed (fst (startup w))"
  by (simp add: startup_eq well_formed_def)

lemma startup_baseline:
  "heap (fst (startup w)) ! production_metrics (plant_data (fst (startup w))) = baseline_metrics"
  by (simp add: startup_eq)

lemma reachable_store:
  "plant_data (fst (snd (run (fst (startup w0)) w rqs))) = plant_data (fst (startup w0))"
  using run_frame [of "fst (startup w0)" w rqs] by blast

lemma reachable_baseline:
  "heap (fst (snd (run (fst (startup w0)) w rqs)))
     ! production_metrics (plant_data (fst (snd (run (fst (startup w0)) w rqs)))) = baseline_metrics"
  using run_baseline(1) [OF startup_well_formed, of w0 w rqs] by (simp add: startup_baseline)

lemma worker_id_item:
  "dict_item (worker_json (worker_at w i)) ''id'' = Some (PStr (''W'' @ str_int (1000 + int i)))"
  by (simp add: worker_json_def worker_at_def)

lemma worker_safety_on_roster:
  assumes "plant_data p = plant_data (fst (startup w0))"
  shows "\<exists>r. fst (handle p w GetSafetyWorkers) = Inr r
     \<and> lookup_path (body_json r) [''data'', ''statistics'', ''total_workers''] = Some (PInt 50)
     \<and> lookup_path (body_json r) [''data'', ''workers'']
         = Some (PList (map worker_json (take 10 (workers (plant_data (fst (startup w0)))))))
     \<and> response_worker_ids r
         = map (\<lambda>k. Some (PStr (''W'' @ str_int (1000 + int (Suc k))))) [0..<10]"
proof -
  have ws: "workers (plant_data p) = map (\<lambda>k. worker_at (advance w0 (5 * k) k) (Suc k)) [0..<50]"
    unfolding assms by (rule startup_workers)
  then have ne: "workers (plant_data p) \<noteq> []" by (simp add: upt_conv_Cons del: upt_Suc)
  have len: "length (workers (plant_data p)) = 50" unfolding ws by simp
  have t: "take 10 (map (\<lambda>k. worker_at (advance w0 (5 * k) k) (Suc k)) [0..<50])
         = map (\<lambda>k. worker_at (advance w0 (5 * k) k) (Suc k)) [0..<10]"
    by (simp add: take_map del: upt_Suc)
  have tk: "take 10 (workers (plant_data p))
         = map (\<lambda>k. worker_at (advance w0 (5 * k) k) (Suc k)) [0..<10]"
    unfolding ws by (rule t)
  have tk0: "take 10 (workers (plant_data (fst (startup w0))))
         = map (\<lambda>k. worker_at (advance w0 (5 * k) k) (Suc k)) [0..<10]"
    unfolding startup_workers by (rule t)
  show ?thesis
    unfolding fst_handle worker_safety_response [OF ne] fst_conv response_worker_ids_def
    by (simp add: jsonify_def body_json_def len tk tk0 worker_id_item o_def del: upt_Suc)
qed

text \<open>
  C1. After any sequence of requests served from startup, the store holds the very workers,
  shifts and metrics address it held at startup, and the metrics dict at that address is
  the one stored at startup: no handler writes the shared state (the metrics handler
  updates its own copy). Two consecutive calls of the worker-safety route, made in any
  state the server can reach, both return \<open>total_workers = 50\<close> and the same identifiers
  of the first 10 workers, \<open>W1001\<close> to \<open>W1010\<close>.
\<close>

theorem handlers_leave_state_unchanged:
  "plant_data (fst (snd (run (fst (startup w0)) w rqs))) = plant_data (fst (startup w0))
   \<and> heap (fst (snd (run (fst (startup w0)) w rqs)))
        ! production_metrics (plant_data (fst (snd (run (fst (startup w0)) w rqs))))
       = heap (fst (startup w0)) ! production_metrics (plant_data (fst (startup w0)))
   \<and> (\<exists>ra rb.
         fst (run (fst (snd (run (fst (startup w0)) w rqs))) w' [GetSafetyWorkers, GetSafetyWorkers])
           = [Inr ra, Inr rb]
         \<and> lookup_path (body_json ra) [''data'', ''statistics'', ''total_workers''] = Some (PInt 50)
         \<and> lookup_path (body_json rb) [''data'', ''statistics'', ''total_workers''] = Some (PInt 50)
         \<and> response_worker_ids ra = map (\<lambda>k. Some (PStr (''W'' @ str_int (1000 + int (Suc k))))) [0..<10]
         \<and> response_worker_ids rb = response_worker_ids ra)"
proof -
  define p where "p = fst (snd (run (fst (startup w0)) w rqs))"
  define w1 where "w1 = snd (snd (handle p w' GetSafetyWorkers))"
  have pd: "plant_data p = plant_data (fst (startup w0))"
    unfolding p_def by (rule reachable_store)
  have bl: "heap p ! production_metrics (plant_data p)
       = heap (fst (startup w0)) ! production_metrics (plant_data (fst (startup w0)))"
    unfolding p_def by (simp add: reachable_baseline startup_baseline)
  have p1: "fst (snd (handle p w' GetSafetyWorkers)) = p"
    by (simp add: snd_handle)
  from worker_safety_on_roster [OF pd, of w'] obtain ra
    where ra: "fst (handle p w' GetSafetyWorkers) = Inr ra"
      "lookup_path (body_json ra) [''data'', ''statistics'', ''total_workers''] = Some (PInt 50)"
      "response_worker_ids ra = map (\<lambda>k. Some (PStr (''W'' @ str_int (1000 + int (Suc k))))) [0..<10]"
    by blast
  from worker_safety_on_roster [OF pd, of w1] obtain rb
    where rb: "fst (handle p w1 GetSafetyWorkers) = Inr rb"
      "lookup_path (body_json rb) [''data'', ''statistics'', ''total_workers''] = Some (PInt 50)"
      "response_worker_ids rb = map (\<lambda>k. Some (PStr (''W'' @ str_int (1000 + int (Suc k))))) [0..<10]"
    by blast
  have "fst (run p w' [GetSafetyWorkers, GetSafetyWorkers])
      = [fst (handle p w' GetSafetyWorkers), fst (handle (fst (snd (handle p w' GetSafetyWorkers))) w1 GetSafetyWorkers)]"
    by (simp add: split_def Let_def w1_def)
  then have "fst (run p w' [GetSafetyWorkers, GetSafetyWorkers]) = [Inr ra, Inr rb]"
    unfolding p1 ra(1) rb(1) .
  with ra rb pd bl show ?thesis unfolding p_def [symmetric] by auto
qed

theorem handlers_leave_state_unchanged_witness:
  "plant_data (fst (snd (run (fst (startup sample_world)) sample_world
       [GetOperationsMetrics, PostAiChat BadJson, GetOperationsMetrics])))
     = plant_data (fst (startup sample_world))
   \<and> heap (fst (snd (run (fst (startup sample_world)) sample_world
       [GetOperationsMetrics, PostAiChat BadJson, GetOperationsMetrics])))
        ! production_metrics (plant_data (fst (snd (run (fst (startup sample_world)) sample_world
       [GetOperationsMetrics, PostAiChat BadJson, GetOperationsMetrics]))))
     = baseline_metrics"
proof -
  from handlers_leave_state_unchanged
    [of sample_world sample_world "[GetOperationsMetrics, PostAiChat BadJson, GetOperationsMetrics]"
      sample_world]
  have 1: "plant_data (fst (snd (run (fst (startup sample_world)) sample_world
       [GetOperationsMetrics, PostAiChat BadJson, GetOperationsMetrics])))
     = plant_data (fst (startup sample_world))"
    and 2: "heap (fst (snd (run (fst (startup sample_world)) sample_world
       [GetOperationsMetrics, PostAiChat BadJson, GetOperationsMetrics])))
        ! production_metrics (plant_data (fst (snd (run (fst (startup sample_world)) sample_world
       [GetOperationsMetrics, PostAiChat BadJson, GetOperationsMetrics]))))
     = heap (fst (startup sample_world)) ! production_metrics (plant_data (fst (startup sample_world)))"
    by blast+
  from 2 have "heap (fst (snd (run (fst (startup sample_world)) sample_world
       [GetOperationsMetrics, PostAiChat BadJson, GetOperationsMetrics])))
        ! production_metrics (plant_data (fst (snd (run (fst (startup sample_world)) sample_world
       [GetOperationsMetrics, PostAiChat BadJson, GetOperationsMetrics]))))
     = baseline_metrics"
    by (simp only: startup_baseline)
  with 1 show ?thesis by blast
qed

subsection \<open>The worker-safety route in the states the server reaches\<close>

text \<open>
  C3. In every state the server can reach, for every call of the worker-safety route: the
  roster has 50 workers, the response holds exactly 10 worker records, the first 10 of the
  roster, and the statistics are computed over the whole roster of 50: \<open>total_workers\<close>
  is 50, \<open>safe_workers\<close> counts the status \<open>Safe\<close>, \<open>violations_today\<close> counts the
  statuses \<open>PPE Missing\<close> and \<open>Training Required\<close>, \<open>ppe_compliance_rate\<close> and
  \<open>safety_score\<close> are the two fractions of 50 times 100, rounded to one decimal, each
  between 0 and 100. (The docstring of the handler speaks of the status of all workers; the
  response lists \<open>workers[:10]\<close>, as its comment says.)
\<close>

theorem worker_safety_statistics:
  assumes "p = fst (snd (run (fst (startup w0)) w1 rqs))" and "ws = workers (plant_data p)"
  shows "\<exists>r. fst (handle p w GetSafetyWorkers) = Inr r
     \<and> length ws = 50
     \<and> lookup_path (body_json r) [''data'', ''workers'']
         = Some (PList (map worker_json (take 10 ws)))
     \<and> length (map worker_json (take 10 ws)) = 10
     \<and> response_worker_ids r = map (\<lambda>k. Some (PStr (''W'' @ str_int (1000 + int (Suc k))))) [0..<10]
     \<and> lookup_path (body_json r) [''data'', ''statistics'', ''total_workers''] = Some (PInt 50)
     \<and> lookup_path (body_json r) [''data'', ''statistics'', ''safe_workers'']
         = Some (PInt (int (length (filter (\<lambda>wk. status wk = ''Safe'') ws))))
     \<and> lookup_path (body_json r) [''data'', ''statistics'', ''violations_today'']
         = Some (PInt (int (length (filter
              (\<lambda>wk. status wk = ''PPE Missing'' \<or> status wk = ''Training Required'') ws))))
     \<and> (\<exists>rate. lookup_path (body_json r) [''data'', ''statistics'', ''ppe_compliance_rate'']
            = Some (PFloat rate)
          \<and> rate = round1 (fmul (double_of
                (of_int (int (length (filter ppe_compliance ws))) / 50)) 100)
          \<and> 0 \<le> rate \<and> rate \<le> 100)
     \<and> (\<exists>score. lookup_path (body_json r) [''data'', ''statistics'', ''safety_score'']
            = Some (PFloat score)
          \<and> score = round1 (fmul (double_of
                (of_int (int (length (filter (\<lambda>wk. status wk = ''Safe'') ws))) / 50)) 100)
          \<and> 0 \<le> score \<and> score \<le> 100)"
proof -
  have pd: "plant_data p = plant_data (fst (startup w0))"
    unfolding assms(1) by (rule reachable_store)
  have len: "length ws = 50" unfolding assms(2) pd by (simp add: startup_workers)
  then have ten: "10 \<le> length (workers (plant_data p))" unfolding assms(2) by simp
  have n: "(of_int (int (length (workers (plant_data p)))) :: real) = 50"
    using len unfolding assms(2) by simp
  from worker_safety_on_roster [OF pd, of w] obtain r1
    where r1: "fst (handle p w GetSafetyWorkers) = Inr r1"
      and ids: "response_worker_ids r1
         = map (\<lambda>k. Some (PStr (''W'' @ str_int (1000 + int (Suc k))))) [0..<10]"
    by blast
  from worker_safety_on_large_roster [OF ten, of w w0] obtain r
    where r: "fst (handle p w GetSafetyWorkers) = Inr r"
      and rest: "lookup_path (body_json r) [''data'', ''workers'']
         = Some (PList (map worker_json (take 10 (workers (plant_data p)))))"
      "length (map worker_json (take 10 (workers (plant_data p)))) = 10"
      "lookup_path (body_json r) [''data'', ''statistics'', ''total_workers'']
         = Some (PInt (int (length (workers (plant_data p)))))"
      "lookup_path (body_json r) [''data'', ''statistics'', ''safe_workers'']
         = Some (PInt (int (length (filter (\<lambda>wk. status wk = ''Safe'') (workers (plant_data p))))))"
      "lookup_path (body_json r) [''data'', ''statistics'', ''violations_today'']
         = Some (PInt (int (length (filter
              (\<lambda>wk. status wk = ''PPE Missing'' \<or> status wk = ''Training Required'')
              (workers (plant_data p))))))"
      "\<exists>rate. lookup_path (body_json r) [''data'', ''statistics'', ''ppe_compliance_rate'']
            = Some (PFloat rate)
          \<and> rate = round1 (fmul (double_of
                (of_int (int (length (filter ppe_compliance (workers (plant_data p)))))
                  / of_int (int (length (workers (plant_data p)))))) 100)
          \<and> 0 \<le> rate \<and> rate \<le> 100"
      "\<exists>score. lookup_path (body_json r) [''data'', ''statistics'', ''safety_score'']
            = Some (PFloat score)
          \<and> score = round1 (fmul (double_of
                (of_int (int (length (filter (\<lambda>wk. status wk = ''Safe'') (workers (plant_data p)))))
                  / of_int (int (length (workers (plant_data p)))))) 100)
          \<and> 0 \<le> score \<and> score \<le> 100"
    by blast
  from r r1 have same: "r1 = r" by simp
  have total: "lookup_path (body_json r) [''data'', ''statistics'', ''total_workers''] = Some (PInt 50)"
    using rest(3) len unfolding assms(2) by simp
  from r len rest(1,2,4,5,6,7) total ids show ?thesis
    unfolding n assms(2) same by blast
qed

theorem worker_safety_statistics_witness:
  "\<exists>r. fst (handle (fst (snd (run (fst (startup sample_world)) sample_world [GetOperationsMetrics])))
            sample_world GetSafetyWorkers) = Inr r
     \<and> length (workers (plant_data
          (fst (snd (run (fst (startup sample_world)) sample_world [GetOperationsMetrics]))))) = 50
     \<and> length (map worker_json (take 10 (workers (plant_data
          (fst (snd (run (fst (startup sample_world)) sample_world [GetOperationsMetrics]))))))) = 10
     \<and> lookup_path (body_json r) [''data'', ''statistics'', ''total_workers''] = Some (PInt 50)"
proof -
  define p where "p = fst (snd (run (fst (startup sample_world)) sample_world [GetOperationsMetrics]))"
  from worker_safety_statistics [OF p_def refl, of sample_world]
  show ?thesis unfolding p_def by blast
qed

subsection \<open>The metrics route\<close>

lemma perturbed_bounds:
  "\<exists>d1 \<delta> d2. - 50 \<le> d1 \<and> d1 \<le> 50 \<and> - 2 \<le> \<delta> \<and> \<delta> \<le> 2 \<and> - 20 \<le> d2 \<and> d2 \<le> 20
     \<and> perturbed b w = b\<lparr>production_rate := production_rate b + d1,
                           efficiency := fadd (efficiency b) \<delta>,
                           temperature := temperature b + d2\<rparr>"
proof -
  have 1: "- 50 \<le> randint (- 50) 50 (rand_src w 0) \<and> randint (- 50) 50 (rand_src w 0) \<le> 50"
    by (rule randint_bounds) simp
  have 2: "- 2 \<le> uniform (- 2) 2 (rand_src w 1) \<and> uniform (- 2) 2 (rand_src w 1) \<le> 2"
    by (rule efficiency_delta_range)
  have 3: "- 20 \<le> randint (- 20) 20 (rand_src w 2) \<and> randint (- 20) 20 (rand_src w 2) \<le> 20"
    by (rule randint_bounds) simp
  from 1 2 3 show ?thesis unfolding perturbed_def by blast
qed

text \<open>
  C2. In every state \<open>p\<close> the server can reach and for every output of the generator, the
  metrics response is the stored baseline \<open>b\<close> with \<open>production_rate\<close> moved by an
  integer in \<open>[-50, 50]\<close>, \<open>efficiency\<close> by a float in \<open>[-2, 2]\<close> (one float addition)
  and \<open>temperature\<close> by an integer in \<open>[-20, 20]\<close>; \<open>energy_consumption\<close> and
  \<open>co2_emissions\<close> are those of the baseline. The stored baseline is the one of startup,
  and the call leaves it as it is.
\<close>

theorem metrics_perturbation:
  assumes "p = fst (snd (run (fst (startup w0)) w1 rqs))"
    and "b = heap p ! production_metrics (plant_data p)"
  shows "\<exists>r d1 \<delta> d2. fst (handle p w GetOperationsMetrics) = Inr r
     \<and> - 50 \<le> d1 \<and> d1 \<le> 50 \<and> - 2 \<le> \<delta> \<and> \<delta> \<le> 2 \<and> - 20 \<le> d2 \<and> d2 \<le> 20
     \<and> lookup_path (body_json r) [''data'']
          = Some (metrics_json (b\<lparr>production_rate := production_rate b + d1,
                                   efficiency := fadd (efficiency b) \<delta>,
                                   temperature := temperature b + d2\<rparr>))
     \<and> lookup_path (body_json r) [''data'', ''production_rate''] = Some (PInt (2450 + d1))
     \<and> lookup_path (body_json r) [''data'', ''efficiency'']
          = Some (PFloat (fadd (double_of (873 / 10)) \<delta>))
     \<and> lookup_path (body_json r) [''data'', ''temperature''] = Some (PInt (1480 + d2))
     \<and> lookup_path (body_json r) [''data'', ''energy_consumption'']
          = Some (PFloat (energy_consumption b))
     \<and> lookup_path (body_json r) [''data'', ''co2_emissions''] = Some (PInt (co2_emissions b))
     \<and> b = baseline_metrics
     \<and> heap (fst (snd (handle p w GetOperationsMetrics)))
          ! production_metrics (plant_data (fst (snd (handle p w GetOperationsMetrics)))) = b"
proof -
  have b: "b = baseline_metrics" unfolding assms by (rule reachable_baseline)
  have wf: "well_formed p"
    unfolding assms(1) using startup_well_formed by (rule run_baseline(2))
  from perturbed_bounds [of b w] obtain d1 \<delta> d2
    where d: "- 50 \<le> d1" "d1 \<le> 50" "- 2 \<le> \<delta>" "\<delta> \<le> 2" "- 20 \<le> d2" "d2 \<le> 20"
      and pb: "perturbed b w = b\<lparr>production_rate := production_rate b + d1,
                           efficiency := fadd (efficiency b) \<delta>,
                           temperature := temperature b + d2\<rparr>"
    by blast
  define r where "r = fst (get_operations_metrics p w)"
  have h: "fst (handle p w GetOperationsMetrics) = Inr r"
    by (simp add: fst_handle r_def)
  have data: "lookup_path (body_json r) [''data''] = Some (metrics_json (perturbed b w))"
    unfolding r_def metrics_response assms(2) by (simp add: jsonify_def body_json_def)
  have fields: "lookup_path (body_json r) [''data'', ''production_rate''] = Some (PInt (2450 + d1))"
    "lookup_path (body_json r) [''data'', ''efficiency''] = Some (PFloat (fadd (double_of (873 / 10)) \<delta>))"
    "lookup_path (body_json r) [''data'', ''temperature''] = Some (PInt (1480 + d2))"
    "lookup_path (body_json r) [''data'', ''energy_consumption''] = Some (PFloat (energy_consumption b))"
    "lookup_path (body_json r) [''data'', ''co2_emissions''] = Some (PInt (co2_emissions b))"
    unfolding r_def metrics_response assms(2) [symmetric] pb
    by (simp_all add: jsonify_def body_json_def metrics_json_def b baseline_metrics_def)
  from wf have a: "production_metrics (plant_data p) < length (heap p)"
    by (simp add: well_formed_def)
  have kept: "heap (fst (snd (handle p w GetOperationsMetrics)))
          ! production_metrics (plant_data (fst (snd (handle p w GetOperationsMetrics)))) = b"
    using a by (simp add: handle_process nth_append assms(2))
  from h d data fields b kept show ?thesis unfolding pb by blast
qed

theorem metrics_perturbation_witness:
  "\<exists>r. fst (handle (fst (snd (run (fst (startup sample_world)) sample_world [GetOperationsMetrics])))
            sample_world GetOperationsMetrics) = Inr r
     \<and> lookup_path (body_json r) [''data'', ''production_rate''] = Some (PInt 2403)
     \<and> lookup_path (body_json r) [''data'', ''temperature''] = Some (PInt 1477)
     \<and> lookup_path (body_json r) [''data'', ''co2_emissions''] = Some (PInt (- 12))"
proof -
  define p where "p = fst (snd (run (fst (startup sample_world)) sample_world [GetOperationsMetrics]))"
  from metrics_perturbation [OF p_def refl, of sample_world]
  have b: "heap p ! production_metrics (plant_data p) = baseline_metrics" by blast
  have "fst (handle p sample_world GetOperationsMetrics) = Inr (fst (get_operations_metrics p sample_world))"
    by (simp add: fst_handle)
  moreover have
    "lookup_path (body_json (fst (get_operations_metrics p sample_world))) [''data'', ''production_rate'']
       = Some (PInt 2403)"
    "lookup_path (body_json (fst (get_operations_metrics p sample_world))) [''data'', ''temperature'']
       = Some (PInt 1477)"
    "lookup_path (body_json (fst (get_operations_metrics p sample_world))) [''data'', ''co2_emissions'']
       = Some (PInt (- 12))"
    unfolding metrics_response b
    by (simp_all add: jsonify_def body_json_def metrics_json_def perturbed_def baseline_metrics_def
          sample_world_def randint_def)
  ultimately show ?thesis unfolding p_def by blast
qed

subsection \<open>The chat route\<close>

lemma sublist_quoted: "sublist m (a @ quoted m @ b)"
proof -
  have "a @ quoted m @ b = (a @ [CHR 0x27]) @ m @ ([CHR 0x27] @ b)"
    by (simp add: quoted_def)
  then show ?thesis unfolding sublist_def by blast
qed

lemma ai_responses_contain: "t \<in> set (ai_responses m) \<Longrightarrow> sublist m t"
  unfolding ai_responses_def list.set insert_iff empty_iff
  by (elim disjE FalseE) (simp_all only: sublist_quoted)

lemma ai_responses_length: "length (ai_responses m) = 6"
  by (simp add: ai_responses_def)

lemma choice_ai_responses: "choice (ai_responses m) r \<in> set (ai_responses m)"
proof -
  obtain x xs where "ai_responses m = x # xs"
    using ai_responses_length [of m] by (cases "ai_responses m") auto
  then show ?thesis by (simp only: choice_in_set)
qed

text \<open>The response of the chat route to a JSON object.\<close>

lemma ai_chat_response:
  "fst (ai_chat (JsonDoc (PDict items)) w) =
     Inr (jsonify (PDict
       [(''status'', PStr ''success''),
        (''data'', PDict
           [(''user_message'', (case map_of items ''message'' of None \<Rightarrow> PStr [] | Some v \<Rightarrow> v)),
            (''ai_response'', PStr (choice (ai_responses (format_value w
                (case map_of items ''message'' of None \<Rightarrow> PStr [] | Some v \<Rightarrow> v))) (rand_src w 0))),
            (''confidence'', PFloat (uniform (double_of (85 / 100)) (double_of (98 / 100)) (rand_src w 1))),
            (''suggestions'', PList (map PStr suggestions))]),
        (''timestamp'', PStr (isoformat (clock_src w 0)))]))"
  by (simp add: ai_chat_def request_json_def draw_def now_def Let_def)

text \<open>
  C7, as the code has it. For a request whose \<open>message\<close> is the string \<open>m\<close>, the
  \<open>ai_response\<close> is one of the six templates, each of which contains \<open>m\<close>; the
  \<open>confidence\<close> is a float between the floats 0.85 and 0.98, both ends included; the
  \<open>suggestions\<close> are the three fixed strings.
\<close>

theorem ai_chat_reply:
  assumes "map_of items ''message'' = Some (PStr m)"
  shows "\<exists>r t c. fst (handle p w (PostAiChat (JsonDoc (PDict items)))) = Inr r
     \<and> lookup_path (body_json r) [''data'', ''ai_response''] = Some (PStr t)
     \<and> t \<in> set (ai_responses m) \<and> length (ai_responses m) = 6
     \<and> (\<forall>t' \<in> set (ai_responses m). sublist m t')
     \<and> sublist m t
     \<and> lookup_path (body_json r) [''data'', ''confidence''] = Some (PFloat c)
     \<and> double_of (85 / 100) \<le> c \<and> c \<le> double_of (98 / 100)
     \<and> lookup_path (body_json r) [''data'', ''suggestions''] = Some (PList (map PStr suggestions))
     \<and> length suggestions = 3"
proof -
  define t where "t = choice (ai_responses m) (rand_src w 0)"
  define c where "c = uniform (double_of (85 / 100)) (double_of (98 / 100)) (rand_src w 1)"
  have t: "t \<in> set (ai_responses m)" unfolding t_def by (rule choice_ai_responses)
  then have sub: "sublist m t" by (rule ai_responses_contain)
  have c: "double_of (85 / 100) \<le> c \<and> c \<le> double_of (98 / 100)"
    unfolding c_def by (rule confidence_range)
  have all: "\<forall>t' \<in> set (ai_responses m). sublist m t'"
    by (blast intro: ai_responses_contain)
  have three: "length suggestions = 3" by (simp add: suggestions_def)
  have "lookup_path (body_json (jsonify (PDict
       [(''status'', PStr ''success''),
        (''data'', PDict
           [(''user_message'', PStr m),
            (''ai_response'', PStr t),
            (''confidence'', PFloat c),
            (''suggestions'', PList (map PStr suggestions))]),
        (''timestamp'', PStr (isoformat (clock_src w 0)))]))) [''data'', ''ai_response''] = Some (PStr t)"
    "lookup_path (body_json (jsonify (PDict
       [(''status'', PStr ''success''),
        (''data'', PDict
           [(''user_message'', PStr m),
            (''ai_response'', PStr t),
            (''confidence'', PFloat c),
            (''suggestions'', PList (map PStr suggestions))]),
        (''timestamp'', PStr (isoformat (clock_src w 0)))]))) [''data'', ''confidence''] = Some (PFloat c)"
    "lookup_path (body_json (jsonify (PDict
       [(''status'', PStr ''success''),
        (''data'', PDict
           [(''user_message'', PStr m),
            (''ai_response'', PStr t),
            (''confidence'', PFloat c),
            (''suggestions'', PList (map PStr suggestions))]),
        (''timestamp'', PStr (isoformat (clock_src w 0)))]))) [''data'', ''suggestions'']
      = Some (PList (map PStr suggestions))"
    by (simp_all add: jsonify_def body_json_def)
  moreover have "fst (handle p w (PostAiChat (JsonDoc (PDict items)))) = Inr (jsonify (PDict
       [(''status'', PStr ''success''),
        (''data'', PDict
           [(''user_message'', PStr m),
            (''ai_response'', PStr t),
            (''confidence'', PFloat c),
            (''suggestions'', PList (map PStr suggestions))]),
        (''timestamp'', PStr (isoformat (clock_src w 0)))]))"
    unfolding fst_handle ai_chat_response assms t_def c_def
    by (simp add: format_value_def)
  ultimately show ?thesis using t sub c all three ai_responses_length [of m] by blast
qed

theorem ai_chat_reply_witness:
  "map_of [(''message'', PStr ''kiln temp'')] ''message'' = Some (PStr ''kiln temp'')
   \<and> (\<exists>r t. fst (handle (fst (startup sample_world)) sample_world
                  (PostAiChat (JsonDoc (PDict [(''message'', PStr ''kiln temp'')])))) = Inr r
        \<and> lookup_path (body_json r) [''data'', ''ai_response''] = Some (PStr t)
        \<and> t = ''Analyzing '' @ quoted ''kiln temp''
                @ '': Energy consumption can be reduced by 8% through parameter adjustments.''
        \<and> sublist ''kiln temp'' t)"
proof -
  have m: "map_of [(''message'', PStr ''kiln temp'')] ''message'' = Some (PStr ''kiln temp'')"
    by simp
  from ai_chat_reply [OF m, of "fst (startup sample_world)" sample_world]
  obtain r t where r: "fst (handle (fst (startup sample_world)) sample_world
                  (PostAiChat (JsonDoc (PDict [(''message'', PStr ''kiln temp'')])))) = Inr r"
    and t: "lookup_path (body_json r) [''data'', ''ai_response''] = Some (PStr t)"
    and sub: "sublist ''kiln temp'' t"
    by blast
  have "choice (ai_responses ''kiln temp'') (rand_src sample_world 0)
      = ''Analyzing '' @ quoted ''kiln temp''
          @ '': Energy consumption can be reduced by 8% through parameter adjustments.''"
    by (simp add: ai_responses_def sample_world_def)
  with r t have "t = ''Analyzing '' @ quoted ''kiln temp''
                @ '': Energy consumption can be reduced by 8% through parameter adjustments.''"
    by (auto simp: fst_handle ai_chat_response jsonify_def body_json_def format_value_def)
  with m r t sub show ?thesis by blast
qed

text \<open>
  The claim C7 as stated fails at the upper end of the interval: \<open>random.uniform(a, b)\<close>
  is \<open>a + (b - a) * random()\<close> in floats, and when \<open>random()\<close> returns its largest
  value, \<open>1 - 1 / 2 ^ 53\<close>, the sum rounds to the float 0.98 itself.
\<close>

theorem ai_chat_confidence_counterexample:
  "\<exists>r c. fst (handle (fst (startup sample_world)) top_world
               (PostAiChat (JsonDoc (PDict [(''message'', PStr ''kiln temp'')])))) = Inr r
     \<and> lookup_path (body_json r) [''data'', ''confidence''] = Some (PFloat c)
     \<and> c = double_of (98 / 100)
     \<and> \<not> c < double_of (98 / 100)"
proof -
  have r: "rand_src top_world 1 = 2 ^ 53 - 1" by (simp add: top_world_def)
  have "lookup_path (body_json (jsonify (PDict
       [(''status'', PStr ''success''),
        (''data'', PDict
           [(''user_message'', (case map_of [(''message'', PStr ''kiln temp'')] ''message'' of
                None \<Rightarrow> PStr [] | Some v \<Rightarrow> v)),
            (''ai_response'', PStr (choice (ai_responses (format_value top_world
                (case map_of [(''message'', PStr ''kiln temp'')] ''message'' of
                   None \<Rightarrow> PStr [] | Some v \<Rightarrow> v))) (rand_src top_world 0))),
            (''confidence'', PFloat (uniform (double_of (85 / 100)) (double_of (98 / 100)) (2 ^ 53 - 1))),
            (''suggestions'', PList (map PStr suggestions))]),
        (''timestamp'', PStr (isoformat (clock_src top_world 0)))]))) [''data'', ''confidence'']
     = Some (PFloat (uniform (double_of (85 / 100)) (double_of (98 / 100)) (2 ^ 53 - 1)))"
    by (simp add: jsonify_def body_json_def del: map_of.simps)
  then show ?thesis
    unfolding fst_handle ai_chat_response r confidence_at_top by blast
qed

end
